theory Spec2Isabelle
  imports Complex_Main "HOL-Library.Sublist"
begin

section \<open>JavaScript values and strings\<close>

text \<open>
  The three pages (\<^verbatim>\<open>stock-analysis/page.tsx\<close>, and the portfolio and sentiment pages of
  \<^verbatim>\<open>portfolio/page.tsx\<close>) are React components whose submit handlers read the form state,
  call \<^verbatim>\<open>fetch\<close> and store the outcome with the state setters. The handlers are modelled
  as functions from the component state and the behaviour of the environment to the final
  component state and the list of external effects, in the order in which they happen.

  A string is the list of the bytes of its UTF-8 encoding: ASCII text is written as it is,
  the empty string is \<open>[]\<close>, and one string occurs in another exactly when its bytes do.
  A value obtained from \<^verbatim>\<open>response.json()\<close> is a parsed JSON value: a finite number is the
  real it denotes, an object is the list of its properties. \<open>None :: jsval\<close> is
  \<^verbatim>\<open>undefined\<close>, which JSON itself never contains but which reading an absent property
  yields.
\<close>

datatype json =
    JNull
  | JBool bool
  | JNum real
  | JStr string
  | JArr "json list"
  | JObj "(string \<times> json) list"

type_synonym jsval = "json option"

text \<open>
  A thrown value, as the \<^verbatim>\<open>catch\<close> blocks see it: an instance of \<^verbatim>\<open>Error\<close> with its
  \<^verbatim>\<open>message\<close>, or anything else.
\<close>

datatype thrown = ErrorObj string | OtherThrown

text \<open>\<^verbatim>\<open>/^[A-Z]{1,5}$/.test(s)\<close>: one to five characters, each of them in A-Z.\<close>

definition is_upper :: "char \<Rightarrow> bool" where
  "is_upper c = (c \<in> set ''ABCDEFGHIJKLMNOPQRSTUVWXYZ'')"

definition symbol_regex_test :: "string \<Rightarrow> bool" where
  "symbol_regex_test s = (1 \<le> length s \<and> length s \<le> 5 \<and> list_all is_upper s)"

text \<open>\<^verbatim>\<open>s.includes(t)\<close> on strings: \<open>t\<close> occurs in \<open>s\<close> as a contiguous substring.\<close>

fun str_includes :: "string \<Rightarrow> string \<Rightarrow> bool" where
  "str_includes [] t = (t = [])"
| "str_includes (c # s) t = (prefix t (c # s) \<or> str_includes s t)"

text \<open>Truthiness of a value, as \<^verbatim>\<open>||\<close> and \<^verbatim>\<open>&&\<close> test it.\<close>

fun truthy :: "jsval \<Rightarrow> bool" where
  "truthy None = False"
| "truthy (Some JNull) = False"
| "truthy (Some (JBool b)) = b"
| "truthy (Some (JNum x)) = (x \<noteq> 0)"
| "truthy (Some (JStr s)) = (s \<noteq> [])"
| "truthy (Some (JArr xs)) = True"
| "truthy (Some (JObj kvs)) = True"

section \<open>The environment: network and engine\<close>

text \<open>
  A request as \<^verbatim>\<open>fetch\<close> receives it. The body is the object given to
  \<^verbatim>\<open>JSON.stringify\<close>; the numeric conversions \<^verbatim>\<open>parseInt\<close> and \<^verbatim>\<open>parseFloat\<close> of a form
  field are recorded with their argument and not evaluated.
\<close>

datatype body_value = BString string | BParseInt string | BParseFloat string

record request =
  url :: string
  http_method :: string
  headers :: "(string \<times> string) list"
  body :: "(string \<times> body_value) list option"

text \<open>
  A response: its status, and what \<^verbatim>\<open>await response.json()\<close> gives, the parsed body or the
  rejection (a body that is not JSON). \<^verbatim>\<open>response.ok\<close> is a status in 200-299.
\<close>

record response =
  status :: nat
  json_body :: "thrown + json"

definition ok :: "response \<Rightarrow> bool" where
  "ok r = (200 \<le> status r \<and> status r \<le> 299)"

datatype fetch_outcome = Resolved response | Rejected thrown

text \<open>The \<^verbatim>\<open>detail\<close> field carried by the JSON body of a response, if any.\<close>

definition detail_of :: "response \<Rightarrow> jsval" where
  "detail_of resp =
     (case json_body resp of
        Inr (JObj kvs) \<Rightarrow> map_of kvs ''detail''
      | _ \<Rightarrow> None)"

text \<open>Reading a request: a field of the body, a header.\<close>

definition body_field :: "request \<Rightarrow> string \<Rightarrow> body_value option" where
  "body_field r k = (case body r of None \<Rightarrow> None | Some kvs \<Rightarrow> map_of kvs k)"

definition header :: "request \<Rightarrow> string \<Rightarrow> string option" where
  "header r k = map_of (headers r) k"

text \<open>
  What the handlers take from their environment. Every awaited promise is settled:
  \<open>fetch eng n r\<close> is the outcome of request \<open>r\<close> when it is the \<open>n\<close>-th request (from 0) of
  the invocation. The remaining fields are the built-in functions and texts that the
  language and its engine define and the repository does not:
  \<^verbatim>\<open>String.prototype.toUpperCase\<close> and \<^verbatim>\<open>String.prototype.trim\<close> (which follow the Unicode
  tables), the conversion of a number to a string, and the messages of the \<^verbatim>\<open>TypeError\<close>s
  raised by reading a property of \<^verbatim>\<open>null\<close>, by calling what is not a function, and by
  converting to a primitive an object that has none. Every fact below holds whatever they
  are.
\<close>

record engine =
  fetch :: "nat \<Rightarrow> request \<Rightarrow> fetch_outcome"
  toUpperCase :: "string \<Rightarrow> string"
  trim :: "string \<Rightarrow> string"
  number_to_string :: "real \<Rightarrow> string"
  null_property_message :: string
  not_a_function_message :: string
  not_primitive_message :: string

datatype console_arg = Label string | Caught thrown

datatype effect =
    PreventDefault
  | Fetch request
  | ConsoleError "console_arg list"
  | ToastSuccess string

fun requests :: "effect list \<Rightarrow> request list" where
  "requests [] = []"
| "requests (Fetch r # es) = r # requests es"
| "requests (e # es) = requests es"

definition is_post :: "request \<Rightarrow> bool" where
  "is_post r = (http_method r = ''POST'')"

text \<open>
  \<^verbatim>\<open>data.detail\<close> on a parsed body: a \<^verbatim>\<open>TypeError\<close> on \<^verbatim>\<open>null\<close>, the property of an
  object, \<^verbatim>\<open>undefined\<close> on every other value (no prototype has a property of that name).
\<close>

definition get_detail :: "engine \<Rightarrow> json \<Rightarrow> thrown + jsval" where
  "get_detail eng data =
     (case data of
        JNull \<Rightarrow> Inl (ErrorObj (null_property_message eng))
      | JObj kvs \<Rightarrow> Inr (map_of kvs ''detail'')
      | _ \<Rightarrow> Inr None)"

text \<open>
  \<^verbatim>\<open>detail?.includes(t)\<close> read as a condition: \<^verbatim>\<open>undefined\<close> (falsy) on \<^verbatim>\<open>undefined\<close> and
  \<^verbatim>\<open>null\<close>, the substring test on a string, membership on an array, and a \<^verbatim>\<open>TypeError\<close>
  on a number, a boolean or an object, where \<^verbatim>\<open>includes\<close> is not a function.
\<close>

definition detail_includes :: "engine \<Rightarrow> jsval \<Rightarrow> string \<Rightarrow> thrown + bool" where
  "detail_includes eng detail t =
     (case detail of
        None \<Rightarrow> Inr False
      | Some JNull \<Rightarrow> Inr False
      | Some (JStr s) \<Rightarrow> Inr (str_includes s t)
      | Some (JArr xs) \<Rightarrow> Inr (JStr t \<in> set xs)
      | Some _ \<Rightarrow> Inl (ErrorObj (not_a_function_message eng)))"

text \<open>
  The conversion of a parsed value to a string, as \<^verbatim>\<open>new Error(v)\<close> applies it to its
  argument. An array is the texts of its elements joined by commas, \<^verbatim>\<open>null\<close> elements
  counting as empty. A plain object is \<^verbatim>\<open>[object Object]\<close>; one with a property named
  \<^verbatim>\<open>toString\<close>, which parsed JSON cannot make a function, has no primitive value, and
  the conversion throws a \<^verbatim>\<open>TypeError\<close>.
\<close>

fun to_string :: "engine \<Rightarrow> json \<Rightarrow> thrown + string"
  and join_elements :: "engine \<Rightarrow> json list \<Rightarrow> thrown + string" where
  "to_string eng JNull = Inr ''null''"
| "to_string eng (JBool b) = Inr (if b then ''true'' else ''false'')"
| "to_string eng (JNum x) = Inr (number_to_string eng x)"
| "to_string eng (JStr s) = Inr s"
| "to_string eng (JArr xs) = join_elements eng xs"
| "to_string eng (JObj kvs) =
     (case map_of kvs ''toString'' of
        Some m \<Rightarrow> Inl (ErrorObj (not_primitive_message eng))
      | None \<Rightarrow> Inr ''[object Object]'')"
| "join_elements eng [] = Inr []"
| "join_elements eng (x # xs) =
     (case (case x of JNull \<Rightarrow> Inr [] | _ \<Rightarrow> to_string eng x) of
        Inl e \<Rightarrow> Inl e
      | Inr s \<Rightarrow>
          if xs = [] then Inr s
          else (case join_elements eng xs of Inl e \<Rightarrow> Inl e | Inr t \<Rightarrow> Inr (s @ '','' @ t)))"

text \<open>
  \<^verbatim>\<open>throw new Error(detail || fallback)\<close>: the value thrown. The message is the operand
  converted to a string; when the conversion itself throws, that is what is thrown.
\<close>

definition throw_new_Error :: "engine \<Rightarrow> jsval \<Rightarrow> string \<Rightarrow> thrown" where
  "throw_new_Error eng detail fallback =
     (case detail of
        None \<Rightarrow> ErrorObj fallback
      | Some v \<Rightarrow>
          if truthy detail then (case to_string eng v of Inl e \<Rightarrow> e | Inr s \<Rightarrow> ErrorObj s)
          else ErrorObj fallback)"

definition health_request :: request where
  "health_request =
     \<lparr>url = ''http://localhost:8001/health'', http_method = ''GET'', headers = [], body = None\<rparr>"

section \<open>Stock analysis page\<close>

record stock_state =
  stock_symbol :: string
  stock_period :: string
  stock_loading :: bool
  stock_analysis :: json
  stock_error :: string

definition stock_request :: "string \<Rightarrow> string \<Rightarrow> request" where
  "stock_request cleanSymbol period =
     \<lparr>url = ''http://localhost:8001/analyze/stock'', http_method = ''POST'',
      headers = [(''Content-Type'', ''application/json''), (''Accept'', ''application/json'')],
      body = Some [(''symbol'', BString cleanSymbol), (''period'', BString period)]\<rparr>"

definition no_data_message :: "string \<Rightarrow> string" where
  "no_data_message cleanSymbol =
     ''No data found for symbol '' @ [CHR 0x22] @ cleanSymbol @ [CHR 0x22]
       @ ''. Please verify the stock symbol is correct.''"

text \<open>The value thrown for a response that is not ok (lines 79-84).\<close>

definition stock_not_ok :: "engine \<Rightarrow> string \<Rightarrow> json \<Rightarrow> thrown" where
  "stock_not_ok eng cleanSymbol data =
     (case get_detail eng data of
        Inl e \<Rightarrow> e
      | Inr detail \<Rightarrow>
          (case detail_includes eng detail ''No data found for symbol'' of
             Inl e \<Rightarrow> e
           | Inr True \<Rightarrow> ErrorObj (no_data_message cleanSymbol)
           | Inr False \<Rightarrow> throw_new_Error eng detail ''Failed to analyze stock''))"

text \<open>
  The \<^verbatim>\<open>try\<close> block of \<^verbatim>\<open>handleAnalyze\<close>: \<open>Inl\<close> the value thrown, with the state and the
  effects at that point.
\<close>

definition stock_try ::
  "engine \<Rightarrow> string \<Rightarrow> stock_state \<Rightarrow> (thrown + unit) \<times> stock_state \<times> effect list" where
  "stock_try eng cleanSymbol s =
     (case fetch eng 0 health_request of
        Rejected _ \<Rightarrow>
          (Inl (ErrorObj ''Backend server is not running. Please start the server and try again.''),
           s, [Fetch health_request])
      | Resolved _ \<Rightarrow>
          (let req = stock_request cleanSymbol (stock_period s);
               es = [Fetch health_request, Fetch req]
           in case fetch eng 1 req of
                Rejected err \<Rightarrow> (Inl err, s, es)
              | Resolved resp \<Rightarrow>
                  (case json_body resp of
                     Inl err \<Rightarrow> (Inl err, s, es)
                   | Inr data \<Rightarrow>
                       if \<not> ok resp then (Inl (stock_not_ok eng cleanSymbol data), s, es)
                       else (Inr (), s\<lparr>stock_analysis := data\<rparr>,
                             es @ [ToastSuccess ''Analysis completed successfully'']))))"

definition stock_message :: "thrown \<Rightarrow> string" where
  "stock_message err =
     (let errorMessage =
        (case err of
           ErrorObj m \<Rightarrow> m
         | OtherThrown \<Rightarrow> ''Failed to analyze stock. Please try again.'')
      in if str_includes errorMessage ''Failed to fetch''
         then ''Unable to connect to the backend server. Please ensure it is running on port 8001.''
         else errorMessage)"

definition stock_catch :: "thrown \<Rightarrow> stock_state \<Rightarrow> effect list \<Rightarrow> stock_state \<times> effect list" where
  "stock_catch err s es =
     (s\<lparr>stock_error := stock_message err\<rparr>,
      es @ [ConsoleError [Label ''Stock analysis error:'', Caught err]])"

text \<open>Lines 54-56: the state with which the \<^verbatim>\<open>try\<close> block is entered.\<close>

definition stock_reset :: "stock_state \<Rightarrow> stock_state" where
  "stock_reset s = s\<lparr>stock_loading := True, stock_error := [], stock_analysis := JNull\<rparr>"

definition stock_handleAnalyze :: "engine \<Rightarrow> stock_state \<Rightarrow> stock_state \<times> effect list" where
  "stock_handleAnalyze eng s =
     (if stock_symbol s = [] then
        (s\<lparr>stock_error := ''Please enter a stock symbol''\<rparr>, [PreventDefault])
      else
        let cleanSymbol = toUpperCase eng (trim eng (stock_symbol s)) in
        if \<not> symbol_regex_test cleanSymbol then
          (s\<lparr>stock_error := ''Please enter a valid stock symbol (1-5 letters)''\<rparr>, [PreventDefault])
        else
          let (r, s2, es) = stock_try eng cleanSymbol (stock_reset s);
              (s3, es3) = (case r of Inl err \<Rightarrow> stock_catch err s2 es | Inr _ \<Rightarrow> (s2, es))
          in (s3\<lparr>stock_loading := False\<rparr>, PreventDefault # es3))"

section \<open>Sentiment page\<close>

record sentiment_state =
  sentiment_symbol :: string
  sentiment_days :: string
  sentiment_loading :: bool
  sentiment_analysis :: json
  sentiment_error :: string

definition sentiment_request :: "string \<Rightarrow> string \<Rightarrow> request" where
  "sentiment_request upperSymbol days =
     \<lparr>url = ''http://localhost:8001/analyze/sentiment'', http_method = ''POST'',
      headers = [(''Content-Type'', ''application/json''), (''Accept'', ''application/json'')],
      body = Some [(''symbol'', BString upperSymbol), (''days'', BParseInt days)]\<rparr>"

text \<open>
  \<^verbatim>\<open>throw new Error(errorData.detail || fallback)\<close>, as the sentiment and the portfolio
  handlers do for a response that is not ok.
\<close>

definition not_ok_error :: "engine \<Rightarrow> json \<Rightarrow> string \<Rightarrow> thrown" where
  "not_ok_error eng errorData fallback =
     (case get_detail eng errorData of
        Inl e \<Rightarrow> e
      | Inr detail \<Rightarrow> throw_new_Error eng detail fallback)"

definition sentiment_try ::
  "engine \<Rightarrow> sentiment_state \<Rightarrow> (thrown + unit) \<times> sentiment_state \<times> effect list" where
  "sentiment_try eng s =
     (case fetch eng 0 health_request of
        Rejected _ \<Rightarrow>
          (Inl (ErrorObj ''Backend server is not running. Please start the server and try again.''),
           s, [Fetch health_request])
      | Resolved _ \<Rightarrow>
          (let req = sentiment_request (toUpperCase eng (sentiment_symbol s)) (sentiment_days s);
               es = [Fetch health_request, Fetch req]
           in case fetch eng 1 req of
                Rejected err \<Rightarrow> (Inl err, s, es)
              | Resolved resp \<Rightarrow>
                  if \<not> ok resp then
                    (case json_body resp of
                       Inl err \<Rightarrow> (Inl err, s, es)
                     | Inr errorData \<Rightarrow>
                         (Inl (not_ok_error eng errorData ''Failed to analyze sentiment''), s, es))
                  else
                    (case json_body resp of
                       Inl err \<Rightarrow> (Inl err, s, es)
                     | Inr data \<Rightarrow> (Inr (), s\<lparr>sentiment_analysis := data\<rparr>, es))))"

definition sentiment_message :: "thrown \<Rightarrow> string" where
  "sentiment_message err =
     (let errorMessage =
        (case err of
           ErrorObj m \<Rightarrow> m
         | OtherThrown \<Rightarrow> ''Failed to analyze sentiment. Please try again.'')
      in if str_includes errorMessage ''Failed to fetch''
         then ''Unable to connect to the backend server. Please ensure it is running on port 8001.''
         else errorMessage)"

definition sentiment_catch ::
  "thrown \<Rightarrow> sentiment_state \<Rightarrow> effect list \<Rightarrow> sentiment_state \<times> effect list" where
  "sentiment_catch err s es =
     (s\<lparr>sentiment_error := sentiment_message err\<rparr>,
      es @ [ConsoleError [Label ''Sentiment analysis error:'', Caught err]])"

definition sentiment_reset :: "sentiment_state \<Rightarrow> sentiment_state" where
  "sentiment_reset s =
     s\<lparr>sentiment_loading := True, sentiment_error := [], sentiment_analysis := JNull\<rparr>"

definition sentiment_handleAnalyze ::
  "engine \<Rightarrow> sentiment_state \<Rightarrow> sentiment_state \<times> effect list" where
  "sentiment_handleAnalyze eng s =
     (if sentiment_symbol s = [] then
        (s\<lparr>sentiment_error := ''Please enter a stock symbol''\<rparr>, [PreventDefault])
      else
        let (r, s2, es) = sentiment_try eng (sentiment_reset s);
            (s3, es3) = (case r of Inl err \<Rightarrow> sentiment_catch err s2 es | Inr _ \<Rightarrow> (s2, es))
        in (s3\<lparr>sentiment_loading := False\<rparr>, PreventDefault # es3))"

section \<open>Portfolio page\<close>

record formData =
  age :: string
  income :: string
  risk_appetite :: string
  investment_period :: string

record portfolio_state =
  portfolio_formData :: formData
  portfolio_loading :: bool
  portfolio_recommendation :: json
  portfolio_error :: string

definition portfolio_request :: "formData \<Rightarrow> request" where
  "portfolio_request fd =
     \<lparr>url = ''http://localhost:8001/portfolio/recommend'', http_method = ''POST'',
      headers = [(''Content-Type'', ''application/json'')],
      body = Some [(''age'', BParseInt (age fd)),
                   (''income'', BParseFloat (income fd)),
                   (''risk_appetite'', BString (risk_appetite fd)),
                   (''investment_period'', BParseInt (investment_period fd))]\<rparr>"

definition portfolio_try ::
  "engine \<Rightarrow> portfolio_state \<Rightarrow> (thrown + unit) \<times> portfolio_state \<times> effect list" where
  "portfolio_try eng s =
     (let req = portfolio_request (portfolio_formData s);
          es = [Fetch req]
      in case fetch eng 0 req of
           Rejected err \<Rightarrow> (Inl err, s, es)
         | Resolved resp \<Rightarrow>
             if \<not> ok resp then
               (case json_body resp of
                  Inl err \<Rightarrow> (Inl err, s, es)
                | Inr errorData \<Rightarrow>
                    (Inl (not_ok_error eng errorData ''Failed to get portfolio recommendation''),
                     s, es))
             else
               (case json_body resp of
                  Inl err \<Rightarrow> (Inl err, s, es)
                | Inr data \<Rightarrow> (Inr (), s\<lparr>portfolio_recommendation := data\<rparr>, es)))"

definition portfolio_message :: "thrown \<Rightarrow> string" where
  "portfolio_message err =
     (case err of
        ErrorObj m \<Rightarrow> m
      | OtherThrown \<Rightarrow> ''Failed to get portfolio recommendation. Please try again.'')"

definition portfolio_catch ::
  "thrown \<Rightarrow> portfolio_state \<Rightarrow> effect list \<Rightarrow> portfolio_state \<times> effect list" where
  "portfolio_catch err s es =
     (s\<lparr>portfolio_error := portfolio_message err\<rparr>, es @ [ConsoleError [Caught err]])"

definition portfolio_reset :: "portfolio_state \<Rightarrow> portfolio_state" where
  "portfolio_reset s =
     s\<lparr>portfolio_loading := True, portfolio_error := [], portfolio_recommendation := JNull\<rparr>"

definition handleSubmit :: "engine \<Rightarrow> portfolio_state \<Rightarrow> portfolio_state \<times> effect list" where
  "handleSubmit eng s =
     (let (r, s2, es) = portfolio_try eng (portfolio_reset s);
          (s3, es3) = (case r of Inl err \<Rightarrow> portfolio_catch err s2 es | Inr _ \<Rightarrow> (s2, es))
      in (s3\<lparr>portfolio_loading := False\<rparr>, PreventDefault # es3))"

section \<open>The result panels of the stock analysis page\<close>

text \<open>
  The JSX under \<^verbatim>\<open>{analysis && (...)}\<close> evaluates one expression per dynamic child or
  class name. The model evaluates them in document order on the stored value and returns
  the pieces produced (static labels are left out), or the first failure. Formatting a number
  is recorded, not computed.
\<close>

datatype piece =
    Text string
  | NumText real
  | Fixed real nat
  | LocaleString real
  | ClassName string

text \<open>
  \<open>TypeError\<close>: a property of \<^verbatim>\<open>undefined\<close> or \<^verbatim>\<open>null\<close> is read, or what is called is not a
  function. \<open>RangeError\<close>: \<^verbatim>\<open>toFixed\<close> with more than 100 digits. \<open>InvalidChild\<close>: React refuses
  an object as a child. \<open>Coercion\<close>: an operand that is not a number where JavaScript would
  convert it; what happens then is outside this model.
\<close>

datatype render_error = TypeError | RangeError | InvalidChild | Coercion

definition get_prop :: "jsval \<Rightarrow> string \<Rightarrow> render_error + jsval" where
  "get_prop v k =
     (case v of
        None \<Rightarrow> Inl TypeError
      | Some JNull \<Rightarrow> Inl TypeError
      | Some (JObj kvs) \<Rightarrow> Inr (map_of kvs k)
      | Some _ \<Rightarrow> Inr None)"

fun path :: "jsval \<Rightarrow> string list \<Rightarrow> render_error + jsval" where
  "path v [] = Inr v"
| "path v (k # ks) = (case get_prop v k of Inl e \<Rightarrow> Inl e | Inr w \<Rightarrow> path w ks)"

fun react_child :: "json \<Rightarrow> render_error + piece list"
  and react_children :: "json list \<Rightarrow> render_error + piece list" where
  "react_child JNull = Inr []"
| "react_child (JBool b) = Inr []"
| "react_child (JNum x) = Inr [NumText x]"
| "react_child (JStr s) = Inr [Text s]"
| "react_child (JArr xs) = react_children xs"
| "react_child (JObj kvs) = Inl InvalidChild"
| "react_children [] = Inr []"
| "react_children (x # xs) =
     (case react_child x of
        Inl e \<Rightarrow> Inl e
      | Inr ps \<Rightarrow> (case react_children xs of Inl e \<Rightarrow> Inl e | Inr qs \<Rightarrow> Inr (ps @ qs)))"

definition child :: "jsval \<Rightarrow> render_error + piece list" where
  "child v = (case v of None \<Rightarrow> Inr [] | Some j \<Rightarrow> react_child j)"

definition toFixed :: "jsval \<Rightarrow> nat \<Rightarrow> render_error + piece list" where
  "toFixed v digits =
     (case v of
        Some (JNum x) \<Rightarrow> if digits \<le> 100 then Inr [Fixed x digits] else Inl RangeError
      | _ \<Rightarrow> Inl TypeError)"

definition toLocaleString :: "jsval \<Rightarrow> render_error + piece list" where
  "toLocaleString v =
     (case v of
        None \<Rightarrow> Inl TypeError
      | Some JNull \<Rightarrow> Inl TypeError
      | Some (JNum x) \<Rightarrow> Inr [LocaleString x]
      | Some _ \<Rightarrow> Inl Coercion)"

definition as_number :: "jsval \<Rightarrow> render_error + real" where
  "as_number v = (case v of Some (JNum x) \<Rightarrow> Inr x | _ \<Rightarrow> Inl Coercion)"

text \<open>One JSX expression: read the property path, then apply the operation to the value.\<close>

definition at_path ::
  "json \<Rightarrow> string list \<Rightarrow> (jsval \<Rightarrow> render_error + piece list) \<Rightarrow> render_error + piece list" where
  "at_path a ks f = (case path (Some a) ks of Inl e \<Rightarrow> Inl e | Inr v \<Rightarrow> f v)"

definition on_number ::
  "(real \<Rightarrow> render_error + piece list) \<Rightarrow> jsval \<Rightarrow> render_error + piece list" where
  "on_number f v = (case as_number v of Inl e \<Rightarrow> Inl e | Inr x \<Rightarrow> f x)"

fun in_order :: "(render_error + piece list) list \<Rightarrow> render_error + piece list" where
  "in_order [] = Inr []"
| "in_order (m # ms) =
     (case m of
        Inl e \<Rightarrow> Inl e
      | Inr ps \<Rightarrow> (case in_order ms of Inl e \<Rightarrow> Inl e | Inr qs \<Rightarrow> Inr (ps @ qs)))"

text \<open>The expressions of lines 227-302, in document order.\<close>

definition result_panels :: "json \<Rightarrow> (render_error + piece list) list" where
  "result_panels a =
     [at_path a [''company_name''] child,
      Inr [Text '' (''],
      at_path a [''symbol''] child,
      Inr [Text '')''],
      Inr [Text ''$''],
      at_path a [''current_price''] (\<lambda>v. toFixed v 2),
      at_path a [''price_change'']
        (on_number (\<lambda>x. Inr [ClassName (''text-xl font-semibold '' @
           (if x \<ge> 0 then ''text-green-600'' else ''text-red-600''))])),
      at_path a [''price_change'']
        (on_number (\<lambda>x. Inr [Text (if x \<ge> 0 then ''+'' else [])])),
      at_path a [''price_change''] (\<lambda>v. toFixed v 2),
      Inr [Text ''%''],
      at_path a [''sector''] child,
      at_path a [''industry''] child,
      at_path a [''technical_indicators'', ''trend'']
        (\<lambda>v. Inr [ClassName (''text-lg font-semibold '' @
           (if v = Some (JStr ''Bullish'') then ''text-green-600'' else ''text-red-600''))]),
      at_path a [''technical_indicators'', ''trend''] child,
      at_path a [''technical_indicators'', ''rsi''] (\<lambda>v. toFixed v 2),
      at_path a [''technical_indicators'', ''macd''] (\<lambda>v. toFixed v 2),
      at_path a [''technical_indicators'', ''volatility'']
        (on_number (\<lambda>x. toFixed (Some (JNum (x * 100))) 2)),
      Inr [Text ''%''],
      Inr [Text ''$''],
      at_path a [''technical_indicators'', ''sma20''] (\<lambda>v. toFixed v 2),
      Inr [Text ''$''],
      at_path a [''technical_indicators'', ''sma50''] (\<lambda>v. toFixed v 2),
      at_path a [''technical_indicators'', ''average_volume''] toLocaleString,
      Inr [Text ''$''],
      at_path a [''market_cap''] (on_number (\<lambda>x. toFixed (Some (JNum (x / 1000000000))) 2)),
      Inr [Text ''B''],
      at_path a [''analysis''] child]"

text \<open>
  \<^verbatim>\<open>{analysis && (...)}\<close>: a falsy value is itself the child, otherwise the panels are.
\<close>

definition render_analysis :: "json \<Rightarrow> render_error + piece list" where
  "render_analysis a =
     (if \<not> truthy (Some a) then react_child a else in_order (result_panels a))"

text \<open>
  The documented shape of a successful response: the interface \<^verbatim>\<open>StockAnalysis\<close>
  (lines 6-29), every field present with its declared type, \<^verbatim>\<open>pe_ratio\<close> a number or
  \<^verbatim>\<open>null\<close>.
\<close>

definition field :: "jsval \<Rightarrow> string \<Rightarrow> jsval" where
  "field v k = (case v of Some (JObj kvs) \<Rightarrow> map_of kvs k | _ \<Rightarrow> None)"

definition is_string :: "jsval \<Rightarrow> bool" where
  "is_string v = (case v of Some (JStr s) \<Rightarrow> True | _ \<Rightarrow> False)"

definition is_number :: "jsval \<Rightarrow> bool" where
  "is_number v = (case v of Some (JNum x) \<Rightarrow> True | _ \<Rightarrow> False)"

definition is_object :: "jsval \<Rightarrow> bool" where
  "is_object v = (case v of Some (JObj kvs) \<Rightarrow> True | _ \<Rightarrow> False)"

definition StockAnalysis :: "json \<Rightarrow> bool" where
  "StockAnalysis a =
     (let v = Some a;
          fifty_two_week = field v ''fifty_two_week'';
          technical_indicators = field v ''technical_indicators''
      in is_object v
       \<and> is_string (field v ''symbol'')
       \<and> is_string (field v ''company_name'')
       \<and> is_string (field v ''sector'')
       \<and> is_string (field v ''industry'')
       \<and> is_number (field v ''current_price'')
       \<and> is_number (field v ''price_change'')
       \<and> is_number (field v ''market_cap'')
       \<and> (is_number (field v ''pe_ratio'') \<or> field v ''pe_ratio'' = Some JNull)
       \<and> is_object fifty_two_week
       \<and> is_number (field fifty_two_week ''high'')
       \<and> is_number (field fifty_two_week ''low'')
       \<and> is_object technical_indicators
       \<and> is_string (field technical_indicators ''trend'')
       \<and> is_number (field technical_indicators ''rsi'')
       \<and> is_number (field technical_indicators ''macd'')
       \<and> is_number (field technical_indicators ''sma20'')
       \<and> is_number (field technical_indicators ''sma50'')
       \<and> is_number (field technical_indicators ''volatility'')
       \<and> is_number (field technical_indicators ''average_volume'')
       \<and> is_string (field v ''analysis''))"

section \<open>Example environments and inputs\<close>

text \<open>
  For the examples, the two string functions on ASCII text: on a string whose characters are
  all ASCII, \<open>ascii_toUpperCase\<close> is \<^verbatim>\<open>String.prototype.toUpperCase\<close> (the letters a-z are
  raised) and \<open>ascii_trim\<close> is \<^verbatim>\<open>String.prototype.trim\<close> (tab, line feed, vertical tab, form
  feed, carriage return and space are removed at both ends). The examples apply them to
  such strings only.
\<close>

definition ascii_upper_char :: "char \<Rightarrow> char" where
  "ascii_upper_char c =
     (case map_of (zip ''abcdefghijklmnopqrstuvwxyz'' ''ABCDEFGHIJKLMNOPQRSTUVWXYZ'') c of
        Some u \<Rightarrow> u
      | None \<Rightarrow> c)"

definition ascii_toUpperCase :: "string \<Rightarrow> string" where
  "ascii_toUpperCase s = map ascii_upper_char s"

definition ascii_is_space :: "char \<Rightarrow> bool" where
  "ascii_is_space c = (c \<in> set [CHR 0x09, CHR 0x0A, CHR 0x0B, CHR 0x0C, CHR 0x0D, CHR 0x20])"

definition ascii_trim :: "string \<Rightarrow> string" where
  "ascii_trim s = rev (dropWhile ascii_is_space (rev (dropWhile ascii_is_space s)))"

text \<open>
  An engine for the examples: its network is \<open>f\<close>, its string functions are the two above,
  its messages are those of V8. The examples convert no number to a string.
\<close>

definition engine_with :: "(nat \<Rightarrow> request \<Rightarrow> fetch_outcome) \<Rightarrow> engine" where
  "engine_with f =
     \<lparr>fetch = f,
      toUpperCase = ascii_toUpperCase,
      trim = ascii_trim,
      number_to_string = (\<lambda>x. ''NaN''),
      null_property_message = ''Cannot read properties of null'',
      not_a_function_message = ''data.detail.includes is not a function'',
      not_primitive_message = ''Cannot convert object to primitive value''\<rparr>"

text \<open>A response with a given status and parsed body.\<close>

definition replying :: "nat \<Rightarrow> json \<Rightarrow> response" where
  "replying st data = \<lparr>status = st, json_body = Inr data\<rparr>"

definition with_detail :: "nat \<Rightarrow> string \<Rightarrow> response" where
  "with_detail st d = replying st (JObj [(''detail'', JStr d)])"



text \<open>
  A backend that is up and answers every analysis request with a given response, no backend
  at all, and a backend that answers the health probe and then drops the connection.
\<close>

definition healthy :: response where
  "healthy = \<lparr>status = 200, json_body = Inr (JObj [(''status'', JStr ''healthy'')])\<rparr>"

definition answering :: "response \<Rightarrow> nat \<Rightarrow> request \<Rightarrow> fetch_outcome" where
  "answering resp n r = (if r = health_request then Resolved healthy else Resolved resp)"

definition offline :: "nat \<Rightarrow> request \<Rightarrow> fetch_outcome" where
  "offline n r = Rejected (ErrorObj ''Failed to fetch'')"

definition post_rejected :: "nat \<Rightarrow> request \<Rightarrow> fetch_outcome" where
  "post_rejected n r =
     (if r = health_request then Resolved healthy else Rejected (ErrorObj ''Failed to fetch''))"

definition stock_form :: "string \<Rightarrow> stock_state" where
  "stock_form sy =
     \<lparr>stock_symbol = sy, stock_period = ''1y'', stock_loading = False,
      stock_analysis = JNull, stock_error = []\<rparr>"

definition sentiment_form :: "string \<Rightarrow> sentiment_state" where
  "sentiment_form sy =
     \<lparr>sentiment_symbol = sy, sentiment_days = ''7'', sentiment_loading = False,
      sentiment_analysis = JNull, sentiment_error = []\<rparr>"

definition portfolio_form :: "string \<Rightarrow> portfolio_state" where
  "portfolio_form a =
     \<lparr>portfolio_formData =
        \<lparr>age = a, income = ''50000'', risk_appetite = ''medium'', investment_period = ''10''\<rparr>,
      portfolio_loading = False, portfolio_recommendation = JNull, portfolio_error = []\<rparr>"

definition aapl :: json where
  "aapl = JObj
     [(''symbol'', JStr ''AAPL''), (''company_name'', JStr ''Apple Inc.''),
      (''sector'', JStr ''Technology''), (''industry'', JStr ''Consumer Electronics''),
      (''current_price'', JNum 189.5), (''price_change'', JNum (- 1.25)),
      (''market_cap'', JNum 2900000000000), (''pe_ratio'', JNull),
      (''fifty_two_week'', JObj [(''high'', JNum 199.6), (''low'', JNum 124.2)]),
      (''technical_indicators'', JObj
         [(''trend'', JStr ''Bullish''), (''rsi'', JNum 55.1), (''macd'', JNum 0.8),
          (''sma20'', JNum 187), (''sma50'', JNum 180.3), (''volatility'', JNum 0.21),
          (''average_volume'', JNum 58000000)]),
      (''analysis'', JStr ''Steady uptrend.'')]"

section \<open>Facts about the handlers\<close>

subsection \<open>The example engine\<close>

lemma engine_with_fields:
  "fetch (engine_with f) = f"
  "toUpperCase (engine_with f) = ascii_toUpperCase"
  "trim (engine_with f) = ascii_trim"
  by (simp_all add: engine_with_def)

lemma ascii_clean:
  "ascii_toUpperCase (ascii_trim ''aapl'') = ''AAPL''"
  "ascii_toUpperCase (ascii_trim '' aapl '') = ''AAPL''"
  "ascii_toUpperCase (ascii_trim ''zzzz'') = ''ZZZZ''"
  "ascii_toUpperCase (ascii_trim ''A1'') = ''A1''"
  "ascii_toUpperCase ''aapl'' = ''AAPL''"
  "ascii_toUpperCase ''AAPL'' = ''AAPL''"
  "ascii_toUpperCase ''A1'' = ''A1''"
  by (simp_all add: ascii_toUpperCase_def ascii_trim_def ascii_is_space_def ascii_upper_char_def)

lemma symbol_tests:
  "symbol_regex_test ''AAPL''" "symbol_regex_test ''ZZZZ''" "\<not> symbol_regex_test ''A1''"
  by (simp_all add: symbol_regex_test_def is_upper_def)

subsection \<open>The handlers in terms of their \<^verbatim>\<open>try\<close> blocks\<close>

text \<open>
  Past the validation, a handler is its \<^verbatim>\<open>try\<close> block followed by the \<^verbatim>\<open>catch\<close> block
  when something was thrown, and then by \<^verbatim>\<open>finally\<close>. A \<^verbatim>\<open>try\<close> block that throws leaves
  the state as it was; one that completes has stored the parsed body of an ok response.
\<close>

lemma stock_handle_thrown:
  assumes "stock_symbol s \<noteq> []" "symbol_regex_test (toUpperCase eng (trim eng (stock_symbol s)))"
    "stock_try eng (toUpperCase eng (trim eng (stock_symbol s))) (stock_reset s) = (Inl err, s2, es)"
  shows "stock_handleAnalyze eng s =
           (s2\<lparr>stock_error := stock_message err, stock_loading := False\<rparr>,
            PreventDefault # es @ [ConsoleError [Label ''Stock analysis error:'', Caught err]])"
  using assms by (simp add: stock_handleAnalyze_def stock_catch_def Let_def)

lemma stock_handle_done:
  assumes "stock_symbol s \<noteq> []" "symbol_regex_test (toUpperCase eng (trim eng (stock_symbol s)))"
    "stock_try eng (toUpperCase eng (trim eng (stock_symbol s))) (stock_reset s) = (Inr u, s2, es)"
  shows "stock_handleAnalyze eng s = (s2\<lparr>stock_loading := False\<rparr>, PreventDefault # es)"
  using assms by (simp add: stock_handleAnalyze_def Let_def)

lemma stock_try_thrown:
  assumes "stock_try eng c s = (Inl err, s2, es)"
  shows "s2 = s"
    and "requests es = [health_request] \<or> requests es = [health_request, stock_request c (stock_period s)]"
  using assms
  by (auto simp add: stock_try_def Let_def split: fetch_outcome.splits sum.splits if_splits)

lemma stock_try_done:
  assumes "stock_try eng c s = (Inr u, s2, es)"
  shows "\<exists>resp data. fetch eng 1 (stock_request c (stock_period s)) = Resolved resp \<and> ok resp
           \<and> json_body resp = Inr data \<and> s2 = s\<lparr>stock_analysis := data\<rparr>"
    and "requests es = [health_request, stock_request c (stock_period s)]"
  using assms
  by (auto simp add: stock_try_def Let_def split: fetch_outcome.splits sum.splits if_splits)

lemma sentiment_handle_thrown:
  assumes "sentiment_symbol s \<noteq> []"
    "sentiment_try eng (sentiment_reset s) = (Inl err, s2, es)"
  shows "sentiment_handleAnalyze eng s =
           (s2\<lparr>sentiment_error := sentiment_message err, sentiment_loading := False\<rparr>,
            PreventDefault # es @ [ConsoleError [Label ''Sentiment analysis error:'', Caught err]])"
  using assms by (simp add: sentiment_handleAnalyze_def sentiment_catch_def Let_def)

lemma sentiment_handle_done:
  assumes "sentiment_symbol s \<noteq> []"
    "sentiment_try eng (sentiment_reset s) = (Inr u, s2, es)"
  shows "sentiment_handleAnalyze eng s = (s2\<lparr>sentiment_loading := False\<rparr>, PreventDefault # es)"
  using assms by (simp add: sentiment_handleAnalyze_def Let_def)

lemma sentiment_try_thrown:
  assumes "sentiment_try eng s = (Inl err, s2, es)"
  shows "s2 = s"
    and "requests es = [health_request]
       \<or> requests es = [health_request, sentiment_request (toUpperCase eng (sentiment_symbol s)) (sentiment_days s)]"
  using assms
  by (auto simp add: sentiment_try_def Let_def split: fetch_outcome.splits sum.splits if_splits)

lemma sentiment_try_done:
  assumes "sentiment_try eng s = (Inr u, s2, es)"
  shows "\<exists>resp data. fetch eng 1 (sentiment_request (toUpperCase eng (sentiment_symbol s)) (sentiment_days s)) = Resolved resp
           \<and> ok resp \<and> json_body resp = Inr data \<and> s2 = s\<lparr>sentiment_analysis := data\<rparr>"
    and "requests es = [health_request, sentiment_request (toUpperCase eng (sentiment_symbol s)) (sentiment_days s)]"
  using assms
  by (auto simp add: sentiment_try_def Let_def split: fetch_outcome.splits sum.splits if_splits)

lemma portfolio_handle_thrown:
  assumes "portfolio_try eng (portfolio_reset s) = (Inl err, s2, es)"
  shows "handleSubmit eng s =
           (s2\<lparr>portfolio_error := portfolio_message err, portfolio_loading := False\<rparr>,
            PreventDefault # es @ [ConsoleError [Caught err]])"
  using assms by (simp add: handleSubmit_def portfolio_catch_def Let_def)

lemma portfolio_handle_done:
  assumes "portfolio_try eng (portfolio_reset s) = (Inr u, s2, es)"
  shows "handleSubmit eng s = (s2\<lparr>portfolio_loading := False\<rparr>, PreventDefault # es)"
  using assms by (simp add: handleSubmit_def Let_def)

lemma portfolio_try_thrown:
  assumes "portfolio_try eng s = (Inl err, s2, es)"
  shows "s2 = s" and "requests es = [portfolio_request (portfolio_formData s)]"
  using assms
  by (auto simp add: portfolio_try_def Let_def split: fetch_outcome.splits sum.splits if_splits)

lemma portfolio_try_done:
  assumes "portfolio_try eng s = (Inr u, s2, es)"
  shows "\<exists>resp data. fetch eng 0 (portfolio_request (portfolio_formData s)) = Resolved resp
           \<and> ok resp \<and> json_body resp = Inr data \<and> s2 = s\<lparr>portfolio_recommendation := data\<rparr>"
    and "requests es = [portfolio_request (portfolio_formData s)]"
  using assms
  by (auto simp add: portfolio_try_def Let_def split: fetch_outcome.splits sum.splits if_splits)

lemma requests_append: "requests (es @ fs) = requests es @ requests fs"
  by (induction es rule: requests.induct) simp_all

subsection \<open>A failed health probe\<close>

lemma not_running_no_fetch:
  "str_includes ''Backend server is not running. Please start the server and try again.'' ''Failed to fetch'' = False"
  by simp

lemma stock_health_rejected:
  assumes "stock_symbol s \<noteq> []" "symbol_regex_test (toUpperCase eng (trim eng (stock_symbol s)))"
    "fetch eng 0 health_request = Rejected e"
  shows "stock_error (fst (stock_handleAnalyze eng s)) =
           ''Backend server is not running. Please start the server and try again.''"
    and "requests (snd (stock_handleAnalyze eng s)) = [health_request]"
  using assms
  by (simp_all add: stock_handleAnalyze_def stock_try_def stock_catch_def stock_message_def
      stock_reset_def not_running_no_fetch Let_def)

lemma sentiment_health_rejected:
  assumes "sentiment_symbol s \<noteq> []" "fetch eng 0 health_request = Rejected e"
  shows "sentiment_error (fst (sentiment_handleAnalyze eng s)) =
           ''Backend server is not running. Please start the server and try again.''"
    and "requests (snd (sentiment_handleAnalyze eng s)) = [health_request]"
  using assms
  by (simp_all add: sentiment_handleAnalyze_def sentiment_try_def sentiment_catch_def
      sentiment_message_def sentiment_reset_def not_running_no_fetch Let_def)

text \<open>
  C3. On the stock analysis and sentiment pages, a submission that passes the handler's own
  check of the symbol and whose \<^verbatim>\<open>GET /health\<close> probe is rejected ends with the error
  state \<^verbatim>\<open>Backend server is not running. Please start the server and try again.\<close>; the
  probe is the only request issued, so no \<^verbatim>\<open>POST\<close> is sent.
\<close>

theorem health_probe_failure:
  "(stock_symbol s \<noteq> [] \<and> symbol_regex_test (toUpperCase eng (trim eng (stock_symbol s)))
      \<and> fetch eng 0 health_request = Rejected e \<longrightarrow>
      stock_error (fst (stock_handleAnalyze eng s)) =
        ''Backend server is not running. Please start the server and try again.''
      \<and> requests (snd (stock_handleAnalyze eng s)) = [health_request]
      \<and> filter is_post (requests (snd (stock_handleAnalyze eng s))) = [])
   \<and> (sentiment_symbol t \<noteq> [] \<and> fetch eng 0 health_request = Rejected e \<longrightarrow>
      sentiment_error (fst (sentiment_handleAnalyze eng t)) =
        ''Backend server is not running. Please start the server and try again.''
      \<and> requests (snd (sentiment_handleAnalyze eng t)) = [health_request]
      \<and> filter is_post (requests (snd (sentiment_handleAnalyze eng t))) = [])"
  by (simp add: stock_health_rejected sentiment_health_rejected is_post_def health_request_def)

theorem health_probe_failure_witness:
  "stock_symbol (stock_form ''aapl'') \<noteq> []
   \<and> symbol_regex_test (toUpperCase (engine_with offline) (trim (engine_with offline) (stock_symbol (stock_form ''aapl''))))
   \<and> sentiment_symbol (sentiment_form ''AAPL'') \<noteq> []
   \<and> fetch (engine_with offline) 0 health_request = Rejected (ErrorObj ''Failed to fetch'')
   \<and> stock_error (fst (stock_handleAnalyze (engine_with offline) (stock_form ''aapl''))) =
        ''Backend server is not running. Please start the server and try again.''
   \<and> requests (snd (stock_handleAnalyze (engine_with offline) (stock_form ''aapl''))) = [health_request]
   \<and> sentiment_error (fst (sentiment_handleAnalyze (engine_with offline) (sentiment_form ''AAPL''))) =
        ''Backend server is not running. Please start the server and try again.''
   \<and> requests (snd (sentiment_handleAnalyze (engine_with offline) (sentiment_form ''AAPL''))) = [health_request]"
proof -
  have a: "stock_symbol (stock_form ''aapl'') \<noteq> []
      \<and> symbol_regex_test (toUpperCase (engine_with offline) (trim (engine_with offline) (stock_symbol (stock_form ''aapl''))))"
    by (simp add: stock_form_def engine_with_fields ascii_clean symbol_tests)
  have b: "sentiment_symbol (sentiment_form ''AAPL'') \<noteq> []"
    by (simp add: sentiment_form_def)
  have c: "fetch (engine_with offline) 0 health_request = Rejected (ErrorObj ''Failed to fetch'')"
    by (simp add: engine_with_fields ascii_clean offline_def)
  show ?thesis
    using a b c
      health_probe_failure [of "stock_form ''aapl''" "engine_with offline" "ErrorObj ''Failed to fetch''"
        "sentiment_form ''AAPL''"]
    by simp
qed

subsection \<open>The requests of an invocation\<close>

lemma stock_requests_cases:
  "requests (snd (stock_handleAnalyze eng s)) = []
   \<or> (stock_symbol s \<noteq> [] \<and> symbol_regex_test (toUpperCase eng (trim eng (stock_symbol s)))
      \<and> (requests (snd (stock_handleAnalyze eng s)) = [health_request]
         \<or> requests (snd (stock_handleAnalyze eng s)) =
             [health_request, stock_request (toUpperCase eng (trim eng (stock_symbol s))) (stock_period s)]))"
proof (cases "stock_symbol s \<noteq> [] \<and> symbol_regex_test (toUpperCase eng (trim eng (stock_symbol s)))")
  case False
  then show ?thesis by (auto simp add: stock_handleAnalyze_def Let_def)
next
  case True
  obtain r s2 es where t: "stock_try eng (toUpperCase eng (trim eng (stock_symbol s))) (stock_reset s) = (r, s2, es)"
    by (cases "stock_try eng (toUpperCase eng (trim eng (stock_symbol s))) (stock_reset s)") auto
  show ?thesis
  proof (cases r)
    case (Inl err)
    with True t stock_try_thrown(2) [of eng _ "stock_reset s" err s2 es] show ?thesis
      by (auto simp add: stock_handle_thrown requests_append stock_reset_def)
  next
    case (Inr u)
    with True t stock_try_done(2) [of eng _ "stock_reset s" u s2 es] show ?thesis
      by (auto simp add: stock_handle_done stock_reset_def)
  qed
qed

lemma sentiment_requests_cases:
  "requests (snd (sentiment_handleAnalyze eng s)) = []
   \<or> (sentiment_symbol s \<noteq> []
      \<and> (requests (snd (sentiment_handleAnalyze eng s)) = [health_request]
         \<or> requests (snd (sentiment_handleAnalyze eng s)) =
             [health_request, sentiment_request (toUpperCase eng (sentiment_symbol s)) (sentiment_days s)]))"
proof (cases "sentiment_symbol s \<noteq> []")
  case False
  then show ?thesis by (auto simp add: sentiment_handleAnalyze_def Let_def)
next
  case True
  obtain r s2 es where t: "sentiment_try eng (sentiment_reset s) = (r, s2, es)"
    by (cases "sentiment_try eng (sentiment_reset s)") auto
  show ?thesis
  proof (cases r)
    case (Inl err)
    with True t sentiment_try_thrown(2) [of eng "sentiment_reset s" err s2 es] show ?thesis
      by (auto simp add: sentiment_handle_thrown requests_append sentiment_reset_def)
  next
    case (Inr u)
    with True t sentiment_try_done(2) [of eng "sentiment_reset s" u s2 es] show ?thesis
      by (auto simp add: sentiment_handle_done sentiment_reset_def)
  qed
qed

lemma portfolio_requests:
  "requests (snd (handleSubmit eng s)) = [portfolio_request (portfolio_formData s)]"
proof -
  obtain r s2 es where t: "portfolio_try eng (portfolio_reset s) = (r, s2, es)"
    by (cases "portfolio_try eng (portfolio_reset s)") auto
  show ?thesis
  proof (cases r)
    case (Inl err)
    with t portfolio_try_thrown(2) [of eng "portfolio_reset s" err s2 es] show ?thesis
      by (auto simp add: portfolio_handle_thrown requests_append portfolio_reset_def)
  next
    case (Inr u)
    with t portfolio_try_done(2) [of eng "portfolio_reset s" u s2 es] show ?thesis
      by (auto simp add: portfolio_handle_done portfolio_reset_def)
  qed
qed

lemma aapl_passes:
  "stock_symbol (stock_form ''aapl'') \<noteq> []
   \<and> symbol_regex_test (toUpperCase (engine_with f) (trim (engine_with f) (stock_symbol (stock_form ''aapl''))))"
  by (simp add: stock_form_def engine_with_fields ascii_clean symbol_tests)

subsection \<open>The loading flag\<close>

lemma stock_loading_false:
  assumes "stock_symbol s \<noteq> []" "symbol_regex_test (toUpperCase eng (trim eng (stock_symbol s)))"
  shows "stock_loading (fst (stock_handleAnalyze eng s)) = False"
  using assms
  by (simp add: stock_handleAnalyze_def Let_def split: prod.splits sum.splits)

lemma sentiment_loading_false:
  assumes "sentiment_symbol s \<noteq> []"
  shows "sentiment_loading (fst (sentiment_handleAnalyze eng s)) = False"
  using assms
  by (simp add: sentiment_handleAnalyze_def Let_def split: prod.splits sum.splits)

lemma portfolio_loading_false: "portfolio_loading (fst (handleSubmit eng s)) = False"
  by (simp add: handleSubmit_def Let_def split: prod.splits sum.splits)

text \<open>
  C8. An invocation that proceeds past the handler's input validation ends with the loading
  flag false, whatever the outcomes of its requests are, hence on the success path and on
  every error path. The portfolio handler validates nothing, so this holds for each of its
  invocations. (The handlers have no loop; every promise they await is taken to settle.)
\<close>

theorem loading_cleared:
  "(stock_symbol s \<noteq> [] \<and> symbol_regex_test (toUpperCase eng (trim eng (stock_symbol s))) \<longrightarrow>
      stock_loading (fst (stock_handleAnalyze eng s)) = False)
   \<and> (sentiment_symbol t \<noteq> [] \<longrightarrow>
      sentiment_loading (fst (sentiment_handleAnalyze eng t)) = False)
   \<and> portfolio_loading (fst (handleSubmit eng p)) = False"
  by (simp add: stock_loading_false sentiment_loading_false portfolio_loading_false)

theorem loading_cleared_witness:
  "stock_symbol (stock_form ''aapl'') \<noteq> []
   \<and> symbol_regex_test (toUpperCase (engine_with offline) (trim (engine_with offline) (stock_symbol (stock_form ''aapl''))))
   \<and> sentiment_symbol (sentiment_form ''AAPL'') \<noteq> []
   \<and> stock_loading (fst (stock_handleAnalyze (engine_with offline) (stock_form ''aapl''))) = False
   \<and> sentiment_loading (fst (sentiment_handleAnalyze (engine_with offline) (sentiment_form ''AAPL''))) = False
   \<and> portfolio_loading (fst (handleSubmit (engine_with offline) (portfolio_form ''30''))) = False"
  using aapl_passes
    loading_cleared [of "stock_form ''aapl''" "engine_with offline" "sentiment_form ''AAPL''" "portfolio_form ''30''"]
  by (simp add: sentiment_form_def)

subsection \<open>What is displayed after a failure\<close>

lemma stock_error_thrown:
  assumes "stock_symbol s \<noteq> []" "symbol_regex_test (toUpperCase eng (trim eng (stock_symbol s)))"
    "fst (stock_try eng (toUpperCase eng (trim eng (stock_symbol s))) (stock_reset s)) = Inl err"
  shows "stock_error (fst (stock_handleAnalyze eng s)) = stock_message err"
    and "stock_analysis (fst (stock_handleAnalyze eng s)) = JNull"
proof -
  obtain s2 es where t: "stock_try eng (toUpperCase eng (trim eng (stock_symbol s))) (stock_reset s) = (Inl err, s2, es)"
    using assms(3) by (cases "stock_try eng (toUpperCase eng (trim eng (stock_symbol s))) (stock_reset s)") auto
  from stock_try_thrown(1) [OF t] have "s2 = stock_reset s" .
  with assms(1,2) t show "stock_error (fst (stock_handleAnalyze eng s)) = stock_message err"
    and "stock_analysis (fst (stock_handleAnalyze eng s)) = JNull"
    by (simp_all add: stock_handle_thrown stock_reset_def)
qed

lemma sentiment_error_thrown:
  assumes "sentiment_symbol s \<noteq> []"
    "fst (sentiment_try eng (sentiment_reset s)) = Inl err"
  shows "sentiment_error (fst (sentiment_handleAnalyze eng s)) = sentiment_message err"
    and "sentiment_analysis (fst (sentiment_handleAnalyze eng s)) = JNull"
proof -
  obtain s2 es where t: "sentiment_try eng (sentiment_reset s) = (Inl err, s2, es)"
    using assms(2) by (cases "sentiment_try eng (sentiment_reset s)") auto
  from sentiment_try_thrown(1) [OF t] have "s2 = sentiment_reset s" .
  with assms(1) t show "sentiment_error (fst (sentiment_handleAnalyze eng s)) = sentiment_message err"
    and "sentiment_analysis (fst (sentiment_handleAnalyze eng s)) = JNull"
    by (simp_all add: sentiment_handle_thrown sentiment_reset_def)
qed

lemma portfolio_error_thrown:
  assumes "fst (portfolio_try eng (portfolio_reset s)) = Inl err"
  shows "portfolio_error (fst (handleSubmit eng s)) = portfolio_message err"
    and "portfolio_recommendation (fst (handleSubmit eng s)) = JNull"
proof -
  obtain s2 es where t: "portfolio_try eng (portfolio_reset s) = (Inl err, s2, es)"
    using assms by (cases "portfolio_try eng (portfolio_reset s)") auto
  from portfolio_try_thrown(1) [OF t] have "s2 = portfolio_reset s" .
  with t show "portfolio_error (fst (handleSubmit eng s)) = portfolio_message err"
    and "portfolio_recommendation (fst (handleSubmit eng s)) = JNull"
    by (simp_all add: portfolio_handle_thrown portfolio_reset_def)
qed

lemma post_rejected_tries:
  "fst (stock_try (engine_with post_rejected) (toUpperCase (engine_with post_rejected) (trim (engine_with post_rejected) (stock_symbol (stock_form ''aapl''))))
          (stock_reset (stock_form ''aapl''))) = Inl (ErrorObj ''Failed to fetch'')"
  "fst (sentiment_try (engine_with post_rejected) (sentiment_reset (sentiment_form ''AAPL''))) =
     Inl (ErrorObj ''Failed to fetch'')"
  "fst (portfolio_try (engine_with post_rejected) (portfolio_reset (portfolio_form ''30''))) =
     Inl (ErrorObj ''Failed to fetch'')"
  by (simp_all add: stock_try_def sentiment_try_def portfolio_try_def engine_with_fields ascii_clean post_rejected_def
      health_request_def stock_request_def sentiment_request_def portfolio_request_def Let_def)

text \<open>
  C10. On the stock analysis and sentiment pages, when the value caught is an \<^verbatim>\<open>Error\<close>
  whose message contains \<^verbatim>\<open>Failed to fetch\<close>, the error state ends as the fixed message
  \<^verbatim>\<open>Unable to connect to the backend server. Please ensure it is running on port 8001.\<close>
  and not as the message caught. On the portfolio page the error state is the message
  caught, whatever it contains.
\<close>

theorem failed_to_fetch_replaced:
  "(stock_symbol s \<noteq> [] \<and> symbol_regex_test (toUpperCase eng (trim eng (stock_symbol s)))
      \<and> fst (stock_try eng (toUpperCase eng (trim eng (stock_symbol s))) (stock_reset s)) = Inl (ErrorObj m)
      \<and> str_includes m ''Failed to fetch'' \<longrightarrow>
      stock_error (fst (stock_handleAnalyze eng s)) =
        ''Unable to connect to the backend server. Please ensure it is running on port 8001.'')
   \<and> (sentiment_symbol t \<noteq> []
      \<and> fst (sentiment_try eng (sentiment_reset t)) = Inl (ErrorObj m)
      \<and> str_includes m ''Failed to fetch'' \<longrightarrow>
      sentiment_error (fst (sentiment_handleAnalyze eng t)) =
        ''Unable to connect to the backend server. Please ensure it is running on port 8001.'')
   \<and> (fst (portfolio_try eng (portfolio_reset p)) = Inl (ErrorObj m) \<longrightarrow>
      portfolio_error (fst (handleSubmit eng p)) = m)"
  by (simp add: stock_error_thrown sentiment_error_thrown portfolio_error_thrown
      stock_message_def sentiment_message_def portfolio_message_def)

theorem failed_to_fetch_replaced_witness:
  "stock_symbol (stock_form ''aapl'') \<noteq> []
   \<and> symbol_regex_test (toUpperCase (engine_with post_rejected) (trim (engine_with post_rejected) (stock_symbol (stock_form ''aapl''))))
   \<and> sentiment_symbol (sentiment_form ''AAPL'') \<noteq> []
   \<and> fst (stock_try (engine_with post_rejected) (toUpperCase (engine_with post_rejected) (trim (engine_with post_rejected) (stock_symbol (stock_form ''aapl''))))
          (stock_reset (stock_form ''aapl''))) = Inl (ErrorObj ''Failed to fetch'')
   \<and> fst (sentiment_try (engine_with post_rejected) (sentiment_reset (sentiment_form ''AAPL''))) =
        Inl (ErrorObj ''Failed to fetch'')
   \<and> fst (portfolio_try (engine_with post_rejected) (portfolio_reset (portfolio_form ''30''))) =
        Inl (ErrorObj ''Failed to fetch'')
   \<and> str_includes ''Failed to fetch'' ''Failed to fetch''
   \<and> stock_error (fst (stock_handleAnalyze (engine_with post_rejected) (stock_form ''aapl''))) =
        ''Unable to connect to the backend server. Please ensure it is running on port 8001.''
   \<and> sentiment_error (fst (sentiment_handleAnalyze (engine_with post_rejected) (sentiment_form ''AAPL''))) =
        ''Unable to connect to the backend server. Please ensure it is running on port 8001.''
   \<and> portfolio_error (fst (handleSubmit (engine_with post_rejected) (portfolio_form ''30''))) =
        ''Failed to fetch''"
proof -
  have b: "sentiment_symbol (sentiment_form ''AAPL'') \<noteq> []"
    by (simp add: sentiment_form_def)
  have c: "str_includes ''Failed to fetch'' ''Failed to fetch''"
    by simp
  show ?thesis
    using aapl_passes b c post_rejected_tries
      failed_to_fetch_replaced [of "stock_form ''aapl''" "engine_with post_rejected" "''Failed to fetch''"
        "sentiment_form ''AAPL''" "portfolio_form ''30''"]
    by simp
qed

subsection \<open>What is sent\<close>

lemma stock_request_fields:
  "is_post (stock_request c p)"
  "url (stock_request c p) = ''http://localhost:8001/analyze/stock''"
  "body_field (stock_request c p) ''symbol'' = Some (BString c)"
  "header (stock_request c p) ''Content-Type'' = Some ''application/json''"
  by (simp_all add: stock_request_def is_post_def body_field_def header_def)

lemma sentiment_request_fields:
  "is_post (sentiment_request c d)"
  "url (sentiment_request c d) = ''http://localhost:8001/analyze/sentiment''"
  "body_field (sentiment_request c d) ''symbol'' = Some (BString c)"
  "header (sentiment_request c d) ''Content-Type'' = Some ''application/json''"
  by (simp_all add: sentiment_request_def is_post_def body_field_def header_def)

lemma portfolio_request_fields:
  "is_post (portfolio_request fd)"
  "url (portfolio_request fd) = ''http://localhost:8001/portfolio/recommend''"
  "body_field (portfolio_request fd) ''age'' = Some (BParseInt (age fd))"
  "header (portfolio_request fd) ''Content-Type'' = Some ''application/json''"
  by (simp_all add: portfolio_request_def is_post_def body_field_def header_def)

lemma health_request_fields:
  "\<not> is_post health_request"
  "headers health_request = []"
  "header health_request k = None"
  by (simp_all add: health_request_def is_post_def header_def)

lemma stock_posted:
  assumes "r \<in> set (requests (snd (stock_handleAnalyze eng s)))" "is_post r"
  shows "r = stock_request (toUpperCase eng (trim eng (stock_symbol s))) (stock_period s)
         \<and> symbol_regex_test (toUpperCase eng (trim eng (stock_symbol s)))"
  using assms stock_requests_cases [of eng s] by (auto simp add: health_request_fields)

lemma sentiment_posted:
  assumes "r \<in> set (requests (snd (sentiment_handleAnalyze eng s)))" "is_post r"
  shows "r = sentiment_request (toUpperCase eng (sentiment_symbol s)) (sentiment_days s)"
  using assms sentiment_requests_cases [of eng s] by (auto simp add: health_request_fields)

lemma up_stock_requests:
  "requests (snd (stock_handleAnalyze (engine_with (answering (replying 200 aapl))) (stock_form '' aapl ''))) =
     [health_request, stock_request ''AAPL'' ''1y'']"
  by (simp add: stock_handleAnalyze_def stock_try_def stock_reset_def stock_form_def engine_with_fields ascii_clean
      symbol_regex_test_def is_upper_def   answering_def replying_def ok_def
      health_request_def stock_request_def Let_def)

lemma up_sentiment_requests:
  "requests (snd (sentiment_handleAnalyze (engine_with (answering (replying 200 aapl))) (sentiment_form ''aapl''))) =
     [health_request, sentiment_request ''AAPL'' ''7'']"
  by (simp add: sentiment_handleAnalyze_def sentiment_try_def sentiment_reset_def sentiment_form_def
      engine_with_fields ascii_clean answering_def replying_def ok_def
      health_request_def sentiment_request_def Let_def)

text \<open>
  C5. Every \<^verbatim>\<open>POST\<close> issued by the stock analysis handler goes to \<^verbatim>\<open>/analyze/stock\<close> with
  a \<^verbatim>\<open>symbol\<close> field equal to the trimmed, uppercased input, which matches
  \<^verbatim>\<open>^[A-Z]{1,5}$\<close>; every \<^verbatim>\<open>POST\<close> issued by the sentiment handler goes to
  \<^verbatim>\<open>/analyze/sentiment\<close> with a \<^verbatim>\<open>symbol\<close> field equal to the uppercased input.
\<close>

theorem posted_symbol:
  "(r \<in> set (requests (snd (stock_handleAnalyze eng s))) \<and> is_post r \<longrightarrow>
      url r = ''http://localhost:8001/analyze/stock''
      \<and> body_field r ''symbol'' = Some (BString (toUpperCase eng (trim eng (stock_symbol s))))
      \<and> symbol_regex_test (toUpperCase eng (trim eng (stock_symbol s))))
   \<and> (q \<in> set (requests (snd (sentiment_handleAnalyze eng t))) \<and> is_post q \<longrightarrow>
      url q = ''http://localhost:8001/analyze/sentiment''
      \<and> body_field q ''symbol'' = Some (BString (toUpperCase eng (sentiment_symbol t))))"
proof (intro conjI impI)
  assume a: "r \<in> set (requests (snd (stock_handleAnalyze eng s))) \<and> is_post r"
  from stock_posted [of r eng s] a
  have r: "r = stock_request (toUpperCase eng (trim eng (stock_symbol s))) (stock_period s)"
    and v: "symbol_regex_test (toUpperCase eng (trim eng (stock_symbol s)))" by simp_all
  show "url r = ''http://localhost:8001/analyze/stock''"
    by (simp only: r stock_request_fields)
  show "body_field r ''symbol'' = Some (BString (toUpperCase eng (trim eng (stock_symbol s))))"
    by (simp only: r stock_request_fields)
  show "symbol_regex_test (toUpperCase eng (trim eng (stock_symbol s)))" by (rule v)
next
  assume a: "q \<in> set (requests (snd (sentiment_handleAnalyze eng t))) \<and> is_post q"
  from sentiment_posted [of q eng t] a
  have q: "q = sentiment_request (toUpperCase eng (sentiment_symbol t)) (sentiment_days t)" by simp
  show "url q = ''http://localhost:8001/analyze/sentiment''"
    by (simp only: q sentiment_request_fields)
  show "body_field q ''symbol'' = Some (BString (toUpperCase eng (sentiment_symbol t)))"
    by (simp only: q sentiment_request_fields)
qed

theorem posted_symbol_witness:
  "stock_request ''AAPL'' ''1y'' \<in>
     set (requests (snd (stock_handleAnalyze (engine_with (answering (replying 200 aapl))) (stock_form '' aapl ''))))
   \<and> is_post (stock_request ''AAPL'' ''1y'')
   \<and> sentiment_request ''AAPL'' ''7'' \<in>
     set (requests (snd (sentiment_handleAnalyze (engine_with (answering (replying 200 aapl))) (sentiment_form ''aapl''))))
   \<and> is_post (sentiment_request ''AAPL'' ''7'')
   \<and> body_field (stock_request ''AAPL'' ''1y'') ''symbol'' = Some (BString ''AAPL'')
   \<and> symbol_regex_test ''AAPL''
   \<and> body_field (sentiment_request ''AAPL'' ''7'') ''symbol'' = Some (BString ''AAPL'')"
proof -
  have a: "stock_request ''AAPL'' ''1y'' \<in>
     set (requests (snd (stock_handleAnalyze (engine_with (answering (replying 200 aapl))) (stock_form '' aapl ''))))"
    by (simp only: up_stock_requests) simp
  have b: "sentiment_request ''AAPL'' ''7'' \<in>
     set (requests (snd (sentiment_handleAnalyze (engine_with (answering (replying 200 aapl))) (sentiment_form ''aapl''))))"
    by (simp only: up_sentiment_requests) simp
  have c: "stock_symbol (stock_form '' aapl '') = '' aapl ''"
    "sentiment_symbol (sentiment_form ''aapl'') = ''aapl''"
    by (simp_all add: stock_form_def sentiment_form_def)
  show ?thesis
    using a b
      posted_symbol [of "stock_request ''AAPL'' ''1y''" "engine_with (answering (replying 200 aapl))"
        "stock_form '' aapl ''" "sentiment_request ''AAPL'' ''7''" "sentiment_form ''aapl''"]
    by (simp add: stock_request_fields sentiment_request_fields c engine_with_fields ascii_clean)
qed

subsection \<open>The headers of the requests\<close>

lemma stock_not_posted:
  assumes "r \<in> set (requests (snd (stock_handleAnalyze eng s)))" "\<not> is_post r"
  shows "r = health_request"
  using assms stock_requests_cases [of eng s] by (auto simp add: stock_request_fields)

lemma sentiment_not_posted:
  assumes "r \<in> set (requests (snd (sentiment_handleAnalyze eng s)))" "\<not> is_post r"
  shows "r = health_request"
  using assms sentiment_requests_cases [of eng s] by (auto simp add: sentiment_request_fields)

text \<open>
  C6, as stated, fails: the \<^verbatim>\<open>GET /health\<close> probe is issued by \<^verbatim>\<open>fetch\<close> with the URL
  alone, and it is among the requests of a stock analysis submission; it carries no
  \<^verbatim>\<open>Content-Type\<close> header.
\<close>

theorem health_probe_has_no_content_type:
  "health_request \<in>
     set (requests (snd (stock_handleAnalyze (engine_with (answering (replying 200 aapl))) (stock_form '' aapl ''))))
   \<and> header health_request ''Content-Type'' \<noteq> Some ''application/json''"
  by (simp add: up_stock_requests health_request_fields)

text \<open>
  C6, amended. Every \<^verbatim>\<open>POST\<close> request issued by the three handlers carries the header
  \<^verbatim>\<open>Content-Type: application/json\<close>. The only other request they issue is the
  \<^verbatim>\<open>GET /health\<close> probe of the stock analysis and sentiment pages, which is sent without
  headers.
\<close>

theorem post_content_type:
  "(r \<in> set (requests (snd (stock_handleAnalyze eng s))) \<and> is_post r \<longrightarrow>
      header r ''Content-Type'' = Some ''application/json'')
   \<and> (r0 \<in> set (requests (snd (stock_handleAnalyze eng s))) \<and> \<not> is_post r0 \<longrightarrow>
      r0 = health_request \<and> headers r0 = [])
   \<and> (q \<in> set (requests (snd (sentiment_handleAnalyze eng t))) \<and> is_post q \<longrightarrow>
      header q ''Content-Type'' = Some ''application/json'')
   \<and> (q0 \<in> set (requests (snd (sentiment_handleAnalyze eng t))) \<and> \<not> is_post q0 \<longrightarrow>
      q0 = health_request \<and> headers q0 = [])
   \<and> (u \<in> set (requests (snd (handleSubmit eng p))) \<longrightarrow>
      is_post u \<and> header u ''Content-Type'' = Some ''application/json'')"
proof (intro conjI impI)
  assume "r \<in> set (requests (snd (stock_handleAnalyze eng s))) \<and> is_post r"
  with stock_posted [of r eng s] show "header r ''Content-Type'' = Some ''application/json''"
    by (auto simp add: stock_request_fields)
next
  assume a: "r0 \<in> set (requests (snd (stock_handleAnalyze eng s))) \<and> \<not> is_post r0"
  with stock_not_posted [of r0 eng s] show "r0 = health_request" by simp
  with health_request_fields show "headers r0 = []" by simp
next
  assume "q \<in> set (requests (snd (sentiment_handleAnalyze eng t))) \<and> is_post q"
  with sentiment_posted [of q eng t] show "header q ''Content-Type'' = Some ''application/json''"
    by (auto simp add: sentiment_request_fields)
next
  assume a: "q0 \<in> set (requests (snd (sentiment_handleAnalyze eng t))) \<and> \<not> is_post q0"
  with sentiment_not_posted [of q0 eng t] show "q0 = health_request" by simp
  with health_request_fields show "headers q0 = []" by simp
next
  assume a: "u \<in> set (requests (snd (handleSubmit eng p)))"
  then have u: "u = portfolio_request (portfolio_formData p)"
    by (simp add: portfolio_requests)
  show "is_post u" by (simp only: u portfolio_request_fields)
  show "header u ''Content-Type'' = Some ''application/json''"
    by (simp only: u portfolio_request_fields)
qed

theorem post_content_type_witness:
  "stock_request ''AAPL'' ''1y'' \<in>
     set (requests (snd (stock_handleAnalyze (engine_with (answering (replying 200 aapl))) (stock_form '' aapl ''))))
   \<and> is_post (stock_request ''AAPL'' ''1y'')
   \<and> health_request \<in>
     set (requests (snd (stock_handleAnalyze (engine_with (answering (replying 200 aapl))) (stock_form '' aapl ''))))
   \<and> \<not> is_post health_request
   \<and> sentiment_request ''AAPL'' ''7'' \<in>
     set (requests (snd (sentiment_handleAnalyze (engine_with (answering (replying 200 aapl))) (sentiment_form ''aapl''))))
   \<and> is_post (sentiment_request ''AAPL'' ''7'')
   \<and> health_request \<in>
     set (requests (snd (sentiment_handleAnalyze (engine_with (answering (replying 200 aapl))) (sentiment_form ''aapl''))))
   \<and> portfolio_request (portfolio_formData (portfolio_form ''30'')) \<in>
     set (requests (snd (handleSubmit (engine_with (answering (replying 200 aapl))) (portfolio_form ''30''))))
   \<and> header (stock_request ''AAPL'' ''1y'') ''Content-Type'' = Some ''application/json''
   \<and> header (sentiment_request ''AAPL'' ''7'') ''Content-Type'' = Some ''application/json''
   \<and> header (portfolio_request (portfolio_formData (portfolio_form ''30''))) ''Content-Type'' =
        Some ''application/json''
   \<and> headers health_request = []"
  using
    post_content_type [of "stock_request ''AAPL'' ''1y''" "engine_with (answering (replying 200 aapl))"
        "stock_form '' aapl ''" health_request "sentiment_request ''AAPL'' ''7''"
        "sentiment_form ''aapl''" health_request
        "portfolio_request (portfolio_formData (portfolio_form ''30''))" "portfolio_form ''30''"]
  by (simp add: up_stock_requests up_sentiment_requests portfolio_requests
      stock_request_fields sentiment_request_fields health_request_fields)

subsection \<open>Input validation\<close>

lemma stock_rejected:
  assumes "stock_symbol s = [] \<or> \<not> symbol_regex_test (toUpperCase eng (trim eng (stock_symbol s)))"
  shows "stock_handleAnalyze eng s =
           (s\<lparr>stock_error :=
                 (if stock_symbol s = [] then ''Please enter a stock symbol''
                  else ''Please enter a valid stock symbol (1-5 letters)'')\<rparr>,
            [PreventDefault])"
  using assms by (auto simp add: stock_handleAnalyze_def Let_def)

lemma sentiment_rejected:
  assumes "sentiment_symbol s = []"
  shows "sentiment_handleAnalyze eng s =
           (s\<lparr>sentiment_error := ''Please enter a stock symbol''\<rparr>, [PreventDefault])"
  using assms by (simp add: sentiment_handleAnalyze_def)

lemma sentiment_probes:
  assumes "sentiment_symbol s \<noteq> []"
  shows "health_request \<in> set (requests (snd (sentiment_handleAnalyze eng s)))"
proof -
  obtain r s2 es where t: "sentiment_try eng (sentiment_reset s) = (r, s2, es)"
    by (cases "sentiment_try eng (sentiment_reset s)") auto
  show ?thesis
  proof (cases r)
    case (Inl err)
    with assms t sentiment_try_thrown(2) [of eng "sentiment_reset s" err s2 es] show ?thesis
      by (auto simp add: sentiment_handle_thrown requests_append)
  next
    case (Inr u)
    with assms t sentiment_try_done(2) [of eng "sentiment_reset s" u s2 es] show ?thesis
      by (auto simp add: sentiment_handle_done)
  qed
qed

text \<open>
  C1, as stated, fails: the sentiment handler only tests that the symbol is not empty, and
  the portfolio handler tests nothing. Against a backend that is up, the symbol \<^verbatim>\<open>A1\<close> is
  posted to \<^verbatim>\<open>/analyze/sentiment\<close> and the age \<^verbatim>\<open>17\<close> to \<^verbatim>\<open>/portfolio/recommend\<close>, and no
  error is set.
\<close>

theorem handlers_let_invalid_input_through:
  "sentiment_request ''A1'' ''7'' \<in>
     set (requests (snd (sentiment_handleAnalyze (engine_with (answering (replying 200 (JObj []))))
       (sentiment_form ''A1''))))
   \<and> body_field (sentiment_request ''A1'' ''7'') ''symbol'' = Some (BString ''A1'')
   \<and> sentiment_error (fst (sentiment_handleAnalyze (engine_with (answering (replying 200 (JObj []))))
       (sentiment_form ''A1''))) = []
   \<and> portfolio_request (portfolio_formData (portfolio_form ''17'')) \<in>
     set (requests (snd (handleSubmit (engine_with (answering (replying 200 (JObj [])))) (portfolio_form ''17''))))
   \<and> body_field (portfolio_request (portfolio_formData (portfolio_form ''17''))) ''age'' =
       Some (BParseInt ''17'')
   \<and> portfolio_error (fst (handleSubmit (engine_with (answering (replying 200 (JObj [])))) (portfolio_form ''17''))) = []"
  by (simp add: sentiment_handleAnalyze_def sentiment_try_def sentiment_reset_def sentiment_form_def
      handleSubmit_def portfolio_try_def portfolio_reset_def portfolio_form_def
      engine_with_fields ascii_clean answering_def replying_def ok_def body_field_def
      health_request_def sentiment_request_def portfolio_request_def Let_def)

text \<open>
  C1, amended. The stock analysis handler rejects an empty symbol, and a symbol whose
  trimmed, uppercased form is not one to five letters A-Z: it sets the validation message and
  issues no request. The sentiment handler rejects the empty symbol in the same way; given
  any other symbol it goes on to the network (the health probe is issued). The portfolio
  handler checks nothing: every invocation posts the form to \<^verbatim>\<open>/portfolio/recommend\<close>.
\<close>

theorem handler_validation:
  "(stock_symbol s = [] \<or> \<not> symbol_regex_test (toUpperCase eng (trim eng (stock_symbol s))) \<longrightarrow>
      requests (snd (stock_handleAnalyze eng s)) = []
      \<and> stock_error (fst (stock_handleAnalyze eng s)) =
          (if stock_symbol s = [] then ''Please enter a stock symbol''
           else ''Please enter a valid stock symbol (1-5 letters)''))
   \<and> (sentiment_symbol t = [] \<longrightarrow>
      requests (snd (sentiment_handleAnalyze eng t)) = []
      \<and> sentiment_error (fst (sentiment_handleAnalyze eng t)) = ''Please enter a stock symbol'')
   \<and> (sentiment_symbol t' \<noteq> [] \<longrightarrow>
      health_request \<in> set (requests (snd (sentiment_handleAnalyze eng t'))))
   \<and> requests (snd (handleSubmit eng p)) = [portfolio_request (portfolio_formData p)]"
  by (simp add: stock_rejected sentiment_rejected sentiment_probes portfolio_requests)

theorem handler_validation_witness:
  "\<not> symbol_regex_test (toUpperCase (engine_with offline) (trim (engine_with offline) (stock_symbol (stock_form ''A1''))))
   \<and> sentiment_symbol (sentiment_form []) = []
   \<and> sentiment_symbol (sentiment_form ''A1'') \<noteq> []
   \<and> requests (snd (stock_handleAnalyze (engine_with offline) (stock_form ''A1''))) = []
   \<and> stock_error (fst (stock_handleAnalyze (engine_with offline) (stock_form ''A1''))) =
        ''Please enter a valid stock symbol (1-5 letters)''
   \<and> requests (snd (sentiment_handleAnalyze (engine_with offline) (sentiment_form []))) = []
   \<and> sentiment_error (fst (sentiment_handleAnalyze (engine_with offline) (sentiment_form []))) =
        ''Please enter a stock symbol''
   \<and> health_request \<in> set (requests (snd (sentiment_handleAnalyze (engine_with offline) (sentiment_form ''A1''))))
   \<and> requests (snd (handleSubmit (engine_with offline) (portfolio_form ''17''))) =
        [portfolio_request (portfolio_formData (portfolio_form ''17''))]"
proof -
  have a: "\<not> symbol_regex_test (toUpperCase (engine_with offline) (trim (engine_with offline) (stock_symbol (stock_form ''A1''))))"
    by (simp add: stock_form_def engine_with_fields ascii_clean symbol_tests)
  have b: "stock_symbol (stock_form ''A1'') \<noteq> []" by (simp add: stock_form_def)
  have c: "sentiment_symbol (sentiment_form []) = []" "sentiment_symbol (sentiment_form ''A1'') \<noteq> []"
    by (simp_all add: sentiment_form_def)
  show ?thesis
    using a b c
      handler_validation [of "stock_form ''A1''" "engine_with offline" "sentiment_form []"
        "sentiment_form ''A1''" "portfolio_form ''17''"]
    by simp
qed

subsection \<open>A response that is not ok and carries a detail\<close>

lemma detail_ofD:
  assumes "detail_of resp = Some v"
  shows "\<exists>kvs. json_body resp = Inr (JObj kvs) \<and> map_of kvs ''detail'' = Some v"
  using assms by (auto simp add: detail_of_def split: sum.splits json.splits)

lemma upper_not_a: "is_upper y \<Longrightarrow> y \<noteq> CHR ''a''"
  by (auto simp add: is_upper_def)

lemma quoted_tail_no_fetch:
  assumes "list_all is_upper c"
  shows "\<not> str_includes (c @ CHR 0x22 # ''. Please verify the stock symbol is correct.'') ''Failed to fetch''"
  using assms
proof (induction c)
  case Nil
  show ?case by simp
next
  case (Cons x xs)
  then have ih: "\<not> str_includes (xs @ CHR 0x22 # ''. Please verify the stock symbol is correct.'') ''Failed to fetch''"
    by simp
  have "\<not> prefix ''ailed to fetch'' (xs @ CHR 0x22 # ''. Please verify the stock symbol is correct.'')"
  proof (cases xs)
    case Nil
    then show ?thesis by simp
  next
    case (Cons y ys)
    with Cons.prems have "is_upper y" by simp
    then have "y \<noteq> CHR ''a''" by (rule upper_not_a)
    with Cons show ?thesis by simp
  qed
  with ih show ?case by simp
qed

lemma no_data_message_no_fetch:
  assumes "symbol_regex_test c"
  shows "\<not> str_includes (no_data_message c) ''Failed to fetch''"
proof -
  from assms have "list_all is_upper c" by (simp add: symbol_regex_test_def)
  then show ?thesis
    using quoted_tail_no_fetch [of c] by (simp add: no_data_message_def)
qed

lemma stock_try_not_ok:
  assumes "fetch eng 0 health_request = Resolved h"
    "fetch eng 1 (stock_request c (stock_period s)) = Resolved resp"
    "\<not> ok resp" "json_body resp = Inr data"
  shows "fst (stock_try eng c s) = Inl (stock_not_ok eng c data)"
  using assms by (simp add: stock_try_def Let_def)

lemma sentiment_try_not_ok:
  assumes "fetch eng 0 health_request = Resolved h"
    "fetch eng 1 (sentiment_request (toUpperCase eng (sentiment_symbol s)) (sentiment_days s)) = Resolved resp"
    "\<not> ok resp" "json_body resp = Inr data"
  shows "fst (sentiment_try eng s) = Inl (not_ok_error eng data ''Failed to analyze sentiment'')"
  using assms by (simp add: sentiment_try_def Let_def)

lemma portfolio_try_not_ok:
  assumes "fetch eng 0 (portfolio_request (portfolio_formData s)) = Resolved resp"
    "\<not> ok resp" "json_body resp = Inr data"
  shows "fst (portfolio_try eng s) = Inl (not_ok_error eng data ''Failed to get portfolio recommendation'')"
  using assms by (simp add: portfolio_try_def Let_def)

lemma not_ok_error_detail:
  assumes "map_of kvs ''detail'' = Some (JStr d)" "d \<noteq> []"
  shows "not_ok_error eng (JObj kvs) fallback = ErrorObj d"
  using assms by (simp add: not_ok_error_def get_detail_def throw_new_Error_def)

lemma stock_not_ok_detail:
  assumes "map_of kvs ''detail'' = Some (JStr d)" "d \<noteq> []"
  shows "stock_not_ok eng c (JObj kvs) =
           ErrorObj (if str_includes d ''No data found for symbol'' then no_data_message c else d)"
  using assms
  by (simp add: stock_not_ok_def get_detail_def detail_includes_def throw_new_Error_def)

lemma stock_detail_displayed:
  assumes "stock_symbol s \<noteq> []" "symbol_regex_test (toUpperCase eng (trim eng (stock_symbol s)))"
    "fetch eng 0 health_request = Resolved h"
    "fetch eng 1 (stock_request (toUpperCase eng (trim eng (stock_symbol s))) (stock_period s)) = Resolved resp"
    "\<not> ok resp" "detail_of resp = Some (JStr d)" "d \<noteq> []"
    "\<not> str_includes d ''Failed to fetch''"
  shows "stock_error (fst (stock_handleAnalyze eng s)) =
           (if str_includes d ''No data found for symbol''
            then no_data_message (toUpperCase eng (trim eng (stock_symbol s))) else d)"
proof -
  from detail_ofD [OF assms(6)] obtain kvs where
    b: "json_body resp = Inr (JObj kvs)" and d: "map_of kvs ''detail'' = Some (JStr d)" by blast
  have p: "stock_period (stock_reset s) = stock_period s" by (simp add: stock_reset_def)
  have "fst (stock_try eng (toUpperCase eng (trim eng (stock_symbol s))) (stock_reset s)) =
          Inl (stock_not_ok eng (toUpperCase eng (trim eng (stock_symbol s))) (JObj kvs))"
    using assms(3,4,5) b by (intro stock_try_not_ok) (simp_all add: p)
  then have "stock_error (fst (stock_handleAnalyze eng s)) =
          stock_message (stock_not_ok eng (toUpperCase eng (trim eng (stock_symbol s))) (JObj kvs))"
    using assms(1,2) by (rule stock_error_thrown(1) [rotated 2])
  also have "\<dots> = (if str_includes d ''No data found for symbol''
            then no_data_message (toUpperCase eng (trim eng (stock_symbol s))) else d)"
    using assms(8) no_data_message_no_fetch [OF assms(2)]
    by (simp add: stock_not_ok_detail [OF d assms(7)] stock_message_def)
  finally show ?thesis .
qed

lemma sentiment_detail_displayed:
  assumes "sentiment_symbol s \<noteq> []"
    "fetch eng 0 health_request = Resolved h"
    "fetch eng 1 (sentiment_request (toUpperCase eng (sentiment_symbol s)) (sentiment_days s)) = Resolved resp"
    "\<not> ok resp" "detail_of resp = Some (JStr d)" "d \<noteq> []"
    "\<not> str_includes d ''Failed to fetch''"
  shows "sentiment_error (fst (sentiment_handleAnalyze eng s)) = d"
proof -
  from detail_ofD [OF assms(5)] obtain kvs where
    b: "json_body resp = Inr (JObj kvs)" and d: "map_of kvs ''detail'' = Some (JStr d)" by blast
  have p: "sentiment_symbol (sentiment_reset s) = sentiment_symbol s"
    "sentiment_days (sentiment_reset s) = sentiment_days s" by (simp_all add: sentiment_reset_def)
  have "fst (sentiment_try eng (sentiment_reset s)) =
          Inl (not_ok_error eng (JObj kvs) ''Failed to analyze sentiment'')"
    using assms(2,3,4) b by (intro sentiment_try_not_ok) (simp_all add: p)
  then have "sentiment_error (fst (sentiment_handleAnalyze eng s)) =
          sentiment_message (not_ok_error eng (JObj kvs) ''Failed to analyze sentiment'')"
    using assms(1) by (rule sentiment_error_thrown(1) [rotated 1])
  also have "\<dots> = d"
    using assms(7) by (simp add: not_ok_error_detail [OF d assms(6)] sentiment_message_def)
  finally show ?thesis .
qed

lemma portfolio_detail_displayed:
  assumes "fetch eng 0 (portfolio_request (portfolio_formData s)) = Resolved resp"
    "\<not> ok resp" "detail_of resp = Some (JStr d)" "d \<noteq> []"
  shows "portfolio_error (fst (handleSubmit eng s)) = d"
proof -
  from detail_ofD [OF assms(3)] obtain kvs where
    b: "json_body resp = Inr (JObj kvs)" and d: "map_of kvs ''detail'' = Some (JStr d)" by blast
  have p: "portfolio_formData (portfolio_reset s) = portfolio_formData s"
    by (simp add: portfolio_reset_def)
  have "fst (portfolio_try eng (portfolio_reset s)) =
          Inl (not_ok_error eng (JObj kvs) ''Failed to get portfolio recommendation'')"
    using assms(1,2) b by (intro portfolio_try_not_ok) (simp_all add: p)
  then have "portfolio_error (fst (handleSubmit eng s)) =
          portfolio_message (not_ok_error eng (JObj kvs) ''Failed to get portfolio recommendation'')"
    by (rule portfolio_error_thrown(1))
  also have "\<dots> = d"
    by (simp add: not_ok_error_detail [OF d assms(4)] portfolio_message_def)
  finally show ?thesis .
qed

lemma rate_limited:
  "fetch (engine_with (answering (with_detail 429 ''Rate limit exceeded''))) n health_request = Resolved healthy"
  "fetch (engine_with (answering (with_detail 429 ''Rate limit exceeded''))) n (stock_request c q) =
     Resolved (with_detail 429 ''Rate limit exceeded'')"
  "fetch (engine_with (answering (with_detail 429 ''Rate limit exceeded''))) n (sentiment_request c q) =
     Resolved (with_detail 429 ''Rate limit exceeded'')"
  "fetch (engine_with (answering (with_detail 429 ''Rate limit exceeded''))) n (portfolio_request fd) =
     Resolved (with_detail 429 ''Rate limit exceeded'')"
  "\<not> ok (with_detail 429 ''Rate limit exceeded'')"
  "detail_of (with_detail 429 ''Rate limit exceeded'') = Some (JStr ''Rate limit exceeded'')"
  "\<not> str_includes ''Rate limit exceeded'' ''Failed to fetch''"
  "\<not> str_includes ''Rate limit exceeded'' ''No data found for symbol''"
  by (simp_all add: engine_with_fields ascii_clean answering_def with_detail_def replying_def ok_def detail_of_def
      health_request_def stock_request_def sentiment_request_def portfolio_request_def)

text \<open>
  C2, as stated, fails on the stock analysis page: a 404 response whose detail is
  \<^verbatim>\<open>No data found for symbol ZZZZ\<close> leaves the error state as the handler's own message
  naming the symbol sent, not as the detail.
\<close>

theorem no_data_detail_is_rewritten:
  "fetch (engine_with (answering (with_detail 404 ''No data found for symbol ZZZZ''))) 1
      (stock_request ''ZZZZ'' ''1y'') = Resolved (with_detail 404 ''No data found for symbol ZZZZ'')
   \<and> \<not> ok (with_detail 404 ''No data found for symbol ZZZZ'')
   \<and> detail_of (with_detail 404 ''No data found for symbol ZZZZ'') =
        Some (JStr ''No data found for symbol ZZZZ'')
   \<and> stock_error (fst (stock_handleAnalyze
        (engine_with (answering (with_detail 404 ''No data found for symbol ZZZZ''))) (stock_form ''zzzz''))) =
        no_data_message ''ZZZZ''
   \<and> no_data_message ''ZZZZ'' \<noteq> ''No data found for symbol ZZZZ''"
  by (simp add: stock_handleAnalyze_def stock_try_def stock_catch_def stock_message_def
      stock_not_ok_def get_detail_def detail_includes_def detail_of_def with_detail_def
      stock_reset_def stock_form_def engine_with_fields ascii_clean answering_def replying_def ok_def
        symbol_tests
      no_data_message_def health_request_def stock_request_def Let_def)

text \<open>
  C2, amended. For a response that is not ok and whose JSON body carries a non-empty string
  as \<^verbatim>\<open>detail\<close>: the portfolio handler sets the error state to exactly that string; so do
  the sentiment and the stock analysis handlers when the string does not contain
  \<^verbatim>\<open>Failed to fetch\<close>, except that on the stock analysis page a detail containing
  \<^verbatim>\<open>No data found for symbol\<close> is replaced by the handler's message
  \<^verbatim>\<open>No data found for symbol "S". Please verify the stock symbol is correct.\<close>, where
  \<^verbatim>\<open>S\<close> is the symbol sent.
\<close>

theorem detail_displayed:
  "(stock_symbol s \<noteq> [] \<and> symbol_regex_test (toUpperCase eng (trim eng (stock_symbol s)))
      \<and> fetch eng 0 health_request = Resolved h
      \<and> fetch eng 1 (stock_request (toUpperCase eng (trim eng (stock_symbol s))) (stock_period s)) =
          Resolved resp
      \<and> \<not> ok resp \<and> detail_of resp = Some (JStr d) \<and> d \<noteq> []
      \<and> \<not> str_includes d ''Failed to fetch'' \<longrightarrow>
      stock_error (fst (stock_handleAnalyze eng s)) =
        (if str_includes d ''No data found for symbol''
         then no_data_message (toUpperCase eng (trim eng (stock_symbol s))) else d))
   \<and> (sentiment_symbol t \<noteq> []
      \<and> fetch eng 0 health_request = Resolved h
      \<and> fetch eng 1 (sentiment_request (toUpperCase eng (sentiment_symbol t)) (sentiment_days t)) = Resolved resp
      \<and> \<not> ok resp \<and> detail_of resp = Some (JStr d) \<and> d \<noteq> []
      \<and> \<not> str_includes d ''Failed to fetch'' \<longrightarrow>
      sentiment_error (fst (sentiment_handleAnalyze eng t)) = d)
   \<and> (fetch eng 0 (portfolio_request (portfolio_formData p)) = Resolved resp
      \<and> \<not> ok resp \<and> detail_of resp = Some (JStr d) \<and> d \<noteq> [] \<longrightarrow>
      portfolio_error (fst (handleSubmit eng p)) = d)"
  using stock_detail_displayed [of s eng h resp d]
    sentiment_detail_displayed [of t eng h resp d]
    portfolio_detail_displayed [of eng p resp d]
  by blast

theorem detail_displayed_witness:
  "stock_symbol (stock_form ''aapl'') \<noteq> []
   \<and> symbol_regex_test (toUpperCase (engine_with (answering (with_detail 429 ''Rate limit exceeded''))) (trim (engine_with (answering (with_detail 429 ''Rate limit exceeded''))) (stock_symbol (stock_form ''aapl''))))
   \<and> sentiment_symbol (sentiment_form ''AAPL'') \<noteq> []
   \<and> fetch (engine_with (answering (with_detail 429 ''Rate limit exceeded''))) 0 health_request =
        Resolved healthy
   \<and> fetch (engine_with (answering (with_detail 429 ''Rate limit exceeded''))) 1
        (stock_request (toUpperCase (engine_with (answering (with_detail 429 ''Rate limit exceeded''))) (trim (engine_with (answering (with_detail 429 ''Rate limit exceeded''))) (stock_symbol (stock_form ''aapl''))))
           (stock_period (stock_form ''aapl''))) = Resolved (with_detail 429 ''Rate limit exceeded'')
   \<and> fetch (engine_with (answering (with_detail 429 ''Rate limit exceeded''))) 1
        (sentiment_request
           (toUpperCase (engine_with (answering (with_detail 429 ''Rate limit exceeded'')))
              (sentiment_symbol (sentiment_form ''AAPL'')))
           (sentiment_days (sentiment_form ''AAPL''))) = Resolved (with_detail 429 ''Rate limit exceeded'')
   \<and> fetch (engine_with (answering (with_detail 429 ''Rate limit exceeded''))) 0
        (portfolio_request (portfolio_formData (portfolio_form ''30''))) =
        Resolved (with_detail 429 ''Rate limit exceeded'')
   \<and> \<not> ok (with_detail 429 ''Rate limit exceeded'')
   \<and> detail_of (with_detail 429 ''Rate limit exceeded'') = Some (JStr ''Rate limit exceeded'')
   \<and> \<not> str_includes ''Rate limit exceeded'' ''Failed to fetch''
   \<and> stock_error (fst (stock_handleAnalyze (engine_with (answering (with_detail 429 ''Rate limit exceeded'')))
        (stock_form ''aapl''))) = ''Rate limit exceeded''
   \<and> sentiment_error (fst (sentiment_handleAnalyze (engine_with (answering (with_detail 429 ''Rate limit exceeded'')))
        (sentiment_form ''AAPL''))) = ''Rate limit exceeded''
   \<and> portfolio_error (fst (handleSubmit (engine_with (answering (with_detail 429 ''Rate limit exceeded'')))
        (portfolio_form ''30''))) = ''Rate limit exceeded''"
proof -
  have b: "sentiment_symbol (sentiment_form ''AAPL'') \<noteq> []"
    by (simp add: sentiment_form_def)
  show ?thesis
    using aapl_passes b
      detail_displayed [of "stock_form ''aapl''" "engine_with (answering (with_detail 429 ''Rate limit exceeded''))"
        healthy "with_detail 429 ''Rate limit exceeded''" "''Rate limit exceeded''"
        "sentiment_form ''AAPL''" "portfolio_form ''30''"]
    by (simp add: rate_limited)
qed

subsection \<open>Error and result after an invocation\<close>

lemma stock_message_nonempty: "err \<noteq> ErrorObj [] \<Longrightarrow> stock_message err \<noteq> []"
  by (cases err) (simp_all add: stock_message_def)

lemma sentiment_message_nonempty: "err \<noteq> ErrorObj [] \<Longrightarrow> sentiment_message err \<noteq> []"
  by (cases err) (simp_all add: sentiment_message_def)

lemma portfolio_message_nonempty: "err \<noteq> ErrorObj [] \<Longrightarrow> portfolio_message err \<noteq> []"
  by (cases err) (simp_all add: portfolio_message_def)

lemma stock_success:
  assumes "stock_symbol s \<noteq> []" "symbol_regex_test (toUpperCase eng (trim eng (stock_symbol s)))"
    "fetch eng 0 health_request = Resolved h"
    "fetch eng 1 (stock_request (toUpperCase eng (trim eng (stock_symbol s))) (stock_period s)) = Resolved resp"
    "ok resp" "json_body resp = Inr data"
  shows "stock_error (fst (stock_handleAnalyze eng s)) = []"
    and "stock_analysis (fst (stock_handleAnalyze eng s)) = data"
  using assms
  by (simp_all add: stock_handleAnalyze_def stock_try_def stock_reset_def Let_def)

lemma sentiment_success:
  assumes "sentiment_symbol s \<noteq> []"
    "fetch eng 0 health_request = Resolved h"
    "fetch eng 1 (sentiment_request (toUpperCase eng (sentiment_symbol s)) (sentiment_days s)) = Resolved resp"
    "ok resp" "json_body resp = Inr data"
  shows "sentiment_error (fst (sentiment_handleAnalyze eng s)) = []"
    and "sentiment_analysis (fst (sentiment_handleAnalyze eng s)) = data"
  using assms
  by (simp_all add: sentiment_handleAnalyze_def sentiment_try_def sentiment_reset_def Let_def)

lemma portfolio_success:
  assumes "fetch eng 0 (portfolio_request (portfolio_formData s)) = Resolved resp"
    "ok resp" "json_body resp = Inr data"
  shows "portfolio_error (fst (handleSubmit eng s)) = []"
    and "portfolio_recommendation (fst (handleSubmit eng s)) = data"
  using assms
  by (simp_all add: handleSubmit_def portfolio_try_def portfolio_reset_def Let_def)

lemma stock_exclusive:
  assumes "stock_symbol s \<noteq> []" "symbol_regex_test (toUpperCase eng (trim eng (stock_symbol s)))"
  shows "stock_error (fst (stock_handleAnalyze eng s)) = []
       \<or> stock_analysis (fst (stock_handleAnalyze eng s)) = JNull"
proof -
  obtain r s2 es where t: "stock_try eng (toUpperCase eng (trim eng (stock_symbol s))) (stock_reset s) = (r, s2, es)"
    by (cases "stock_try eng (toUpperCase eng (trim eng (stock_symbol s))) (stock_reset s)") auto
  show ?thesis
  proof (cases r)
    case (Inl err)
    with t have "fst (stock_try eng (toUpperCase eng (trim eng (stock_symbol s))) (stock_reset s)) = Inl err"
      by simp
    with assms show ?thesis by (simp add: stock_error_thrown(2))
  next
    case (Inr u)
    with t stock_try_done(1) [of eng _ "stock_reset s" u s2 es]
    obtain data where "s2 = (stock_reset s)\<lparr>stock_analysis := data\<rparr>" by auto
    with assms t Inr show ?thesis by (simp add: stock_handle_done stock_reset_def)
  qed
qed

lemma sentiment_exclusive:
  assumes "sentiment_symbol s \<noteq> []"
  shows "sentiment_error (fst (sentiment_handleAnalyze eng s)) = []
       \<or> sentiment_analysis (fst (sentiment_handleAnalyze eng s)) = JNull"
proof -
  obtain r s2 es where t: "sentiment_try eng (sentiment_reset s) = (r, s2, es)"
    by (cases "sentiment_try eng (sentiment_reset s)") auto
  show ?thesis
  proof (cases r)
    case (Inl err)
    with t have "fst (sentiment_try eng (sentiment_reset s)) = Inl err" by simp
    with assms show ?thesis by (simp add: sentiment_error_thrown(2))
  next
    case (Inr u)
    with t sentiment_try_done(1) [of eng "sentiment_reset s" u s2 es]
    obtain data where "s2 = (sentiment_reset s)\<lparr>sentiment_analysis := data\<rparr>" by auto
    with assms t Inr show ?thesis by (simp add: sentiment_handle_done sentiment_reset_def)
  qed
qed

lemma portfolio_exclusive:
  "portfolio_error (fst (handleSubmit eng s)) = []
   \<or> portfolio_recommendation (fst (handleSubmit eng s)) = JNull"
proof -
  obtain r s2 es where t: "portfolio_try eng (portfolio_reset s) = (r, s2, es)"
    by (cases "portfolio_try eng (portfolio_reset s)") auto
  show ?thesis
  proof (cases r)
    case (Inl err)
    with t have "fst (portfolio_try eng (portfolio_reset s)) = Inl err" by simp
    then show ?thesis by (simp add: portfolio_error_thrown(2))
  next
    case (Inr u)
    with t portfolio_try_done(1) [of eng "portfolio_reset s" u s2 es]
    obtain data where "s2 = (portfolio_reset s)\<lparr>portfolio_recommendation := data\<rparr>" by auto
    with t Inr show ?thesis by (simp add: portfolio_handle_done portfolio_reset_def)
  qed
qed

lemma answering_fetch:
  "fetch (engine_with (answering resp)) n health_request = Resolved healthy"
  "fetch (engine_with (answering resp)) n (stock_request c q) = Resolved resp"
  "fetch (engine_with (answering resp)) n (sentiment_request c q) = Resolved resp"
  "fetch (engine_with (answering resp)) n (portfolio_request fd) = Resolved resp"
  by (simp_all add: engine_with_fields ascii_clean answering_def health_request_def stock_request_def
      sentiment_request_def portfolio_request_def)

lemma replying_fields:
  "ok (replying 200 data)" "json_body (replying st data) = Inr data"
  by (simp_all add: replying_def ok_def)

lemma form_fields:
  "stock_symbol (stock_form sy) = sy" "stock_analysis (stock_form sy) = JNull"
  "sentiment_symbol (sentiment_form sy) = sy" "sentiment_analysis (sentiment_form sy) = JNull"
  by (simp_all add: stock_form_def sentiment_form_def)

lemma unable_message:
  "stock_message (ErrorObj ''Failed to fetch'') =
     ''Unable to connect to the backend server. Please ensure it is running on port 8001.''"
  "sentiment_message (ErrorObj ''Failed to fetch'') =
     ''Unable to connect to the backend server. Please ensure it is running on port 8001.''"
  "portfolio_message (ErrorObj ''Failed to fetch'') = ''Failed to fetch''"
  by (simp_all add: stock_message_def sentiment_message_def portfolio_message_def)

text \<open>
  C9, as stated, fails: an invocation that the handler's validation rejects sets the error
  and returns before the result is cleared. With the result of an earlier analysis on
  display and an empty symbol, the stock analysis handler ends with both the error and the
  result set.
\<close>

theorem stale_result_with_error:
  "stock_error (fst (stock_handleAnalyze (engine_with offline) ((stock_form [])\<lparr>stock_analysis := aapl\<rparr>))) =
     ''Please enter a stock symbol''
   \<and> stock_analysis (fst (stock_handleAnalyze (engine_with offline) ((stock_form [])\<lparr>stock_analysis := aapl\<rparr>))) =
     aapl
   \<and> aapl \<noteq> JNull"
  by (simp add: stock_handleAnalyze_def stock_form_def aapl_def)

text \<open>
  C9, amended. After an invocation that proceeds past the handler's input validation (every
  invocation, on the portfolio page), the error state and the result state are never both
  set. When the request succeeds (every promise resolves, the response is ok) the error is
  empty and the result is the parsed body of the response. When the \<^verbatim>\<open>try\<close> block throws,
  the result is null and the error is the message that the \<^verbatim>\<open>catch\<close> block derives from
  the value thrown, which is not empty unless that value is an \<^verbatim>\<open>Error\<close> with an empty
  message.
\<close>

theorem error_result_exclusive:
  "(stock_symbol s \<noteq> [] \<and> symbol_regex_test (toUpperCase eng (trim eng (stock_symbol s))) \<longrightarrow>
      stock_error (fst (stock_handleAnalyze eng s)) = []
      \<or> stock_analysis (fst (stock_handleAnalyze eng s)) = JNull)
   \<and> (stock_symbol s \<noteq> [] \<and> symbol_regex_test (toUpperCase eng (trim eng (stock_symbol s)))
      \<and> fetch eng 0 health_request = Resolved h
      \<and> fetch eng 1 (stock_request (toUpperCase eng (trim eng (stock_symbol s))) (stock_period s)) =
          Resolved resp
      \<and> ok resp \<and> json_body resp = Inr data \<longrightarrow>
      stock_error (fst (stock_handleAnalyze eng s)) = []
      \<and> stock_analysis (fst (stock_handleAnalyze eng s)) = data)
   \<and> (stock_symbol s \<noteq> [] \<and> symbol_regex_test (toUpperCase eng' (trim eng' (stock_symbol s)))
      \<and> fst (stock_try eng' (toUpperCase eng' (trim eng' (stock_symbol s))) (stock_reset s)) = Inl err \<longrightarrow>
      stock_analysis (fst (stock_handleAnalyze eng' s)) = JNull
      \<and> stock_error (fst (stock_handleAnalyze eng' s)) = stock_message err
      \<and> (err \<noteq> ErrorObj [] \<longrightarrow> stock_error (fst (stock_handleAnalyze eng' s)) \<noteq> []))
   \<and> (sentiment_symbol t \<noteq> [] \<longrightarrow>
      sentiment_error (fst (sentiment_handleAnalyze eng t)) = []
      \<or> sentiment_analysis (fst (sentiment_handleAnalyze eng t)) = JNull)
   \<and> (sentiment_symbol t \<noteq> []
      \<and> fetch eng 0 health_request = Resolved h
      \<and> fetch eng 1 (sentiment_request (toUpperCase eng (sentiment_symbol t)) (sentiment_days t)) = Resolved resp
      \<and> ok resp \<and> json_body resp = Inr data \<longrightarrow>
      sentiment_error (fst (sentiment_handleAnalyze eng t)) = []
      \<and> sentiment_analysis (fst (sentiment_handleAnalyze eng t)) = data)
   \<and> (sentiment_symbol t \<noteq> []
      \<and> fst (sentiment_try eng' (sentiment_reset t)) = Inl err \<longrightarrow>
      sentiment_analysis (fst (sentiment_handleAnalyze eng' t)) = JNull
      \<and> sentiment_error (fst (sentiment_handleAnalyze eng' t)) = sentiment_message err
      \<and> (err \<noteq> ErrorObj [] \<longrightarrow> sentiment_error (fst (sentiment_handleAnalyze eng' t)) \<noteq> []))
   \<and> (portfolio_error (fst (handleSubmit eng p)) = []
       \<or> portfolio_recommendation (fst (handleSubmit eng p)) = JNull)
   \<and> (fetch eng 0 (portfolio_request (portfolio_formData p)) = Resolved resp
      \<and> ok resp \<and> json_body resp = Inr data \<longrightarrow>
      portfolio_error (fst (handleSubmit eng p)) = []
      \<and> portfolio_recommendation (fst (handleSubmit eng p)) = data)
   \<and> (fst (portfolio_try eng' (portfolio_reset p)) = Inl err \<longrightarrow>
      portfolio_recommendation (fst (handleSubmit eng' p)) = JNull
      \<and> portfolio_error (fst (handleSubmit eng' p)) = portfolio_message err
      \<and> (err \<noteq> ErrorObj [] \<longrightarrow> portfolio_error (fst (handleSubmit eng' p)) \<noteq> []))"
proof (intro conjI)
  show "stock_symbol s \<noteq> [] \<and> symbol_regex_test (toUpperCase eng (trim eng (stock_symbol s))) \<longrightarrow>
      stock_error (fst (stock_handleAnalyze eng s)) = []
      \<or> stock_analysis (fst (stock_handleAnalyze eng s)) = JNull"
    using stock_exclusive [of s eng] by blast
  show "stock_symbol s \<noteq> [] \<and> symbol_regex_test (toUpperCase eng (trim eng (stock_symbol s)))
      \<and> fetch eng 0 health_request = Resolved h
      \<and> fetch eng 1 (stock_request (toUpperCase eng (trim eng (stock_symbol s))) (stock_period s)) =
          Resolved resp
      \<and> ok resp \<and> json_body resp = Inr data \<longrightarrow>
      stock_error (fst (stock_handleAnalyze eng s)) = []
      \<and> stock_analysis (fst (stock_handleAnalyze eng s)) = data"
    using stock_success [of s eng h resp data] by blast
  show "stock_symbol s \<noteq> [] \<and> symbol_regex_test (toUpperCase eng' (trim eng' (stock_symbol s)))
      \<and> fst (stock_try eng' (toUpperCase eng' (trim eng' (stock_symbol s))) (stock_reset s)) = Inl err \<longrightarrow>
      stock_analysis (fst (stock_handleAnalyze eng' s)) = JNull
      \<and> stock_error (fst (stock_handleAnalyze eng' s)) = stock_message err
      \<and> (err \<noteq> ErrorObj [] \<longrightarrow> stock_error (fst (stock_handleAnalyze eng' s)) \<noteq> [])"
    using stock_error_thrown [of s eng' err] stock_message_nonempty [of err] by auto
  show "sentiment_symbol t \<noteq> [] \<longrightarrow>
      sentiment_error (fst (sentiment_handleAnalyze eng t)) = []
      \<or> sentiment_analysis (fst (sentiment_handleAnalyze eng t)) = JNull"
    using sentiment_exclusive [of t eng] by blast
  show "sentiment_symbol t \<noteq> []
      \<and> fetch eng 0 health_request = Resolved h
      \<and> fetch eng 1 (sentiment_request (toUpperCase eng (sentiment_symbol t)) (sentiment_days t)) = Resolved resp
      \<and> ok resp \<and> json_body resp = Inr data \<longrightarrow>
      sentiment_error (fst (sentiment_handleAnalyze eng t)) = []
      \<and> sentiment_analysis (fst (sentiment_handleAnalyze eng t)) = data"
    using sentiment_success [of t eng h resp data] by blast
  show "sentiment_symbol t \<noteq> []
      \<and> fst (sentiment_try eng' (sentiment_reset t)) = Inl err \<longrightarrow>
      sentiment_analysis (fst (sentiment_handleAnalyze eng' t)) = JNull
      \<and> sentiment_error (fst (sentiment_handleAnalyze eng' t)) = sentiment_message err
      \<and> (err \<noteq> ErrorObj [] \<longrightarrow> sentiment_error (fst (sentiment_handleAnalyze eng' t)) \<noteq> [])"
    using sentiment_error_thrown [of t eng' err] sentiment_message_nonempty [of err] by auto
  show "portfolio_error (fst (handleSubmit eng p)) = []
       \<or> portfolio_recommendation (fst (handleSubmit eng p)) = JNull"
    by (rule portfolio_exclusive)
  show "fetch eng 0 (portfolio_request (portfolio_formData p)) = Resolved resp
      \<and> ok resp \<and> json_body resp = Inr data \<longrightarrow>
      portfolio_error (fst (handleSubmit eng p)) = []
      \<and> portfolio_recommendation (fst (handleSubmit eng p)) = data"
    using portfolio_success [of eng p resp data] by blast
  show "fst (portfolio_try eng' (portfolio_reset p)) = Inl err \<longrightarrow>
      portfolio_recommendation (fst (handleSubmit eng' p)) = JNull
      \<and> portfolio_error (fst (handleSubmit eng' p)) = portfolio_message err
      \<and> (err \<noteq> ErrorObj [] \<longrightarrow> portfolio_error (fst (handleSubmit eng' p)) \<noteq> [])"
    using portfolio_error_thrown [of eng' p err] portfolio_message_nonempty [of err] by auto
qed

theorem error_result_exclusive_witness:
  "stock_symbol (stock_form ''aapl'') \<noteq> []
   \<and> symbol_regex_test (toUpperCase (engine_with (answering (replying 200 aapl)))
        (trim (engine_with (answering (replying 200 aapl))) (stock_symbol (stock_form ''aapl''))))
   \<and> symbol_regex_test (toUpperCase (engine_with post_rejected)
        (trim (engine_with post_rejected) (stock_symbol (stock_form ''aapl''))))
   \<and> sentiment_symbol (sentiment_form ''AAPL'') \<noteq> []
   \<and> fetch (engine_with (answering (replying 200 aapl))) 0 health_request = Resolved healthy
   \<and> fetch (engine_with (answering (replying 200 aapl))) 1
        (stock_request (toUpperCase (engine_with (answering (replying 200 aapl)))
             (trim (engine_with (answering (replying 200 aapl))) (stock_symbol (stock_form ''aapl''))))
           (stock_period (stock_form ''aapl''))) = Resolved (replying 200 aapl)
   \<and> fetch (engine_with (answering (replying 200 aapl))) 1
        (sentiment_request
           (toUpperCase (engine_with (answering (replying 200 aapl)))
              (sentiment_symbol (sentiment_form ''AAPL'')))
           (sentiment_days (sentiment_form ''AAPL''))) = Resolved (replying 200 aapl)
   \<and> fetch (engine_with (answering (replying 200 aapl))) 0
        (portfolio_request (portfolio_formData (portfolio_form ''30''))) = Resolved (replying 200 aapl)
   \<and> ok (replying 200 aapl) \<and> json_body (replying 200 aapl) = Inr aapl
   \<and> fst (stock_try (engine_with post_rejected)
          (toUpperCase (engine_with post_rejected) (trim (engine_with post_rejected) (stock_symbol (stock_form ''aapl''))))
          (stock_reset (stock_form ''aapl''))) = Inl (ErrorObj ''Failed to fetch'')
   \<and> fst (sentiment_try (engine_with post_rejected) (sentiment_reset (sentiment_form ''AAPL''))) =
        Inl (ErrorObj ''Failed to fetch'')
   \<and> fst (portfolio_try (engine_with post_rejected) (portfolio_reset (portfolio_form ''30''))) =
        Inl (ErrorObj ''Failed to fetch'')
   \<and> ErrorObj ''Failed to fetch'' \<noteq> ErrorObj []
   \<and> stock_error (fst (stock_handleAnalyze (engine_with (answering (replying 200 aapl))) (stock_form ''aapl''))) = []
   \<and> stock_analysis (fst (stock_handleAnalyze (engine_with (answering (replying 200 aapl))) (stock_form ''aapl''))) = aapl
   \<and> stock_analysis (fst (stock_handleAnalyze (engine_with post_rejected) (stock_form ''aapl''))) = JNull
   \<and> stock_error (fst (stock_handleAnalyze (engine_with post_rejected) (stock_form ''aapl''))) =
        ''Unable to connect to the backend server. Please ensure it is running on port 8001.''
   \<and> sentiment_error (fst (sentiment_handleAnalyze (engine_with (answering (replying 200 aapl))) (sentiment_form ''AAPL''))) = []
   \<and> sentiment_analysis (fst (sentiment_handleAnalyze (engine_with (answering (replying 200 aapl))) (sentiment_form ''AAPL''))) = aapl
   \<and> sentiment_analysis (fst (sentiment_handleAnalyze (engine_with post_rejected) (sentiment_form ''AAPL''))) = JNull
   \<and> portfolio_error (fst (handleSubmit (engine_with (answering (replying 200 aapl))) (portfolio_form ''30''))) = []
   \<and> portfolio_recommendation (fst (handleSubmit (engine_with (answering (replying 200 aapl))) (portfolio_form ''30''))) = aapl
   \<and> portfolio_recommendation (fst (handleSubmit (engine_with post_rejected) (portfolio_form ''30''))) = JNull
   \<and> portfolio_error (fst (handleSubmit (engine_with post_rejected) (portfolio_form ''30''))) = ''Failed to fetch''"
  using aapl_passes [of "answering (replying 200 aapl)"] aapl_passes [of post_rejected]
    post_rejected_tries
    error_result_exclusive [of "stock_form ''aapl''" "engine_with (answering (replying 200 aapl))" healthy
      "replying 200 aapl" aapl "engine_with post_rejected" "ErrorObj ''Failed to fetch''"
      "sentiment_form ''AAPL''" "portfolio_form ''30''"]
  by (simp add: answering_fetch replying_fields form_fields unable_message)

subsection \<open>Failures end the invocation\<close>

























subsection \<open>Rendering a result of the documented shape\<close>

lemma in_order_total:
  assumes "list_all (\<lambda>m. \<not> isl m) ms"
  shows "\<not> isl (in_order ms)"
  using assms by (induction ms) (auto split: sum.splits)

lemma path_field:
  assumes "is_object v"
  shows "path v [k] = Inr (field v k)"
  using assms
  by (auto simp add: is_object_def get_prop_def field_def split: option.splits json.splits)

lemma path_field2:
  assumes "is_object v" "is_object (field v k)"
  shows "path v [k, k'] = Inr (field (field v k) k')"
  using assms
  by (auto simp add: is_object_def get_prop_def field_def split: option.splits json.splits)

lemma child_string: "is_string v \<Longrightarrow> \<not> isl (child v)"
  by (auto simp add: is_string_def child_def split: option.splits json.splits)

lemma toFixed_number: "is_number v \<Longrightarrow> \<not> isl (toFixed v 2)"
  by (auto simp add: is_number_def toFixed_def split: option.splits json.splits)

lemma toLocaleString_number: "is_number v \<Longrightarrow> \<not> isl (toLocaleString v)"
  by (auto simp add: is_number_def toLocaleString_def split: option.splits json.splits)

lemma on_number_number:
  assumes "is_number v" "\<And>x. \<not> isl (f x)"
  shows "\<not> isl (on_number f v)"
  using assms
  by (auto simp add: is_number_def on_number_def as_number_def split: option.splits json.splits)

lemma at_path_total:
  assumes "is_object (Some a)" "\<not> isl (f (field (Some a) k))"
  shows "\<not> isl (at_path a [k] f)"
  using assms by (simp add: at_path_def path_field del: path.simps)

lemma at_path2_total:
  assumes "is_object (Some a)" "is_object (field (Some a) k)"
    "\<not> isl (f (field (field (Some a) k) k'))"
  shows "\<not> isl (at_path a [k, k'] f)"
  using assms by (simp add: at_path_def path_field2 del: path.simps)

lemma object_truthy: "is_object v \<Longrightarrow> truthy v"
  by (auto simp add: is_object_def split: option.splits json.splits)

lemma result_panels_total:
  assumes "StockAnalysis a"
  shows "list_all (\<lambda>m. \<not> isl m) (result_panels a)"
proof -
  let ?v = "Some a"
  let ?ti = "field ?v ''technical_indicators''"
  from assms have obj: "is_object ?v" and ti: "is_object ?ti"
    and strs: "is_string (field ?v ''symbol'')" "is_string (field ?v ''company_name'')"
      "is_string (field ?v ''sector'')" "is_string (field ?v ''industry'')"
      "is_string (field ?v ''analysis'')" "is_string (field ?ti ''trend'')"
    and nums: "is_number (field ?v ''current_price'')" "is_number (field ?v ''price_change'')"
      "is_number (field ?v ''market_cap'')" "is_number (field ?ti ''rsi'')"
      "is_number (field ?ti ''macd'')" "is_number (field ?ti ''sma20'')"
      "is_number (field ?ti ''sma50'')" "is_number (field ?ti ''volatility'')"
      "is_number (field ?ti ''average_volume'')"
    by (simp_all add: StockAnalysis_def Let_def)
  show ?thesis
    using obj ti strs nums
    by (simp add: result_panels_def at_path_total at_path2_total child_string toFixed_number
        toLocaleString_number on_number_number is_number_def)
qed

lemma aapl_shape: "StockAnalysis aapl"
  by (simp add: StockAnalysis_def aapl_def field_def is_object_def is_string_def is_number_def)

lemma aapl_rendered:
  "render_analysis aapl = Inr
   [Text ''Apple Inc.'', Text '' ('', Text ''AAPL'', Text '')'', Text ''$'', Fixed 189.5 2,
    ClassName ''text-xl font-semibold text-red-600'', Text [], Fixed (- 1.25) 2, Text ''%'',
    Text ''Technology'', Text ''Consumer Electronics'',
    ClassName ''text-lg font-semibold text-green-600'', Text ''Bullish'',
    Fixed 55.1 2, Fixed 0.8 2, Fixed 21 2, Text ''%'', Text ''$'', Fixed 187 2, Text ''$'',
    Fixed 180.3 2, LocaleString 58000000, Text ''$'', Fixed 2900 2, Text ''B'',
    Text ''Steady uptrend.'']"
  by (simp add: render_analysis_def result_panels_def at_path_def get_prop_def child_def
     toFixed_def toLocaleString_def on_number_def as_number_def aapl_def)

text \<open>
  C7. For every value of the documented \<^verbatim>\<open>StockAnalysis\<close> shape (each documented field
  present with its type, \<^verbatim>\<open>pe_ratio\<close> possibly \<^verbatim>\<open>null\<close>), rendering the result panels of
  the stock analysis page raises nothing: every property read, every \<^verbatim>\<open>toFixed\<close> and
  \<^verbatim>\<open>toLocaleString\<close>, the product with 100 and the division of \<^verbatim>\<open>market_cap\<close> are applied
  to values on which they are defined, and every child is one that React accepts.
\<close>

theorem render_analysis_total:
  "StockAnalysis a \<Longrightarrow> \<exists>ps. render_analysis a = Inr ps"
proof -
  assume shape: "StockAnalysis a"
  then have "is_object (Some a)" by (simp add: StockAnalysis_def Let_def)
  then have "truthy (Some a)" by (rule object_truthy)
  then have "render_analysis a = in_order (result_panels a)"
    by (simp add: render_analysis_def)
  moreover have "\<not> isl (in_order (result_panels a))"
    using shape by (intro in_order_total result_panels_total)
  ultimately show ?thesis by (cases "in_order (result_panels a)") auto
qed

theorem render_analysis_total_witness:
  "StockAnalysis aapl \<and> (\<exists>ps. render_analysis aapl = Inr ps)"
  using aapl_shape render_analysis_total [of aapl] by simp

end
